theory Spec2Isabelle
  imports Main
begin

section \<open>Errors\<close>

text \<open>
  Go \<^verbatim>\<open>error\<close> values. The sentinels are the ones http.go tests with
  \<^verbatim>\<open>errors.Is\<close>; \<open>ErrOther\<close> is any other error (\<^verbatim>\<open>errors.New\<close>),
  \<open>ErrWrap\<close> an error that wraps another one.
\<close>

datatype error =
    ErrUserNotFound
  | ErrTempUserNotFound
  | ErrOrgUserAlreadyAdded
  | ErrSmtpNotEnabled
  | ErrUserAlreadyExists
  | ErrOther string
  | ErrWrap string error

definition errors_New :: "string \<Rightarrow> error" where
  "errors_New msg = ErrOther msg"

text \<open>\<^verbatim>\<open>errors.Is(err, target)\<close>: \<open>err\<close> or an error it wraps is the target.\<close>

fun errors_Is :: "error \<Rightarrow> error \<Rightarrow> bool" where
  "errors_Is (ErrWrap m e) target = (ErrWrap m e = target \<or> errors_Is e target)"
| "errors_Is e target = (e = target)"

section \<open>Data model\<close>

type_synonym RoleType = string

text \<open>
  Modelled from the spec: \<^verbatim>\<open>models.TempUserStatus\<close> is declared outside http.go; the
  spec's data model gives an invite the three statuses pending, revoked and completed.
\<close>

datatype TempUserStatus = TmpUserInvitePending | TmpUserRevoked | TmpUserCompleted

record SignedInUser =
  su_UserID :: int
  su_OrgID :: int
  su_OrgRole :: RoleType
  su_IsGrafanaAdmin :: bool
  su_OrgName :: string
  su_Email :: string
  su_Name :: string
  su_Login :: string

text \<open>
  The request of a \<^verbatim>\<open>models.ReqContext\<close>: its body (a stream, read through
  \<^verbatim>\<open>io.ReadAll\<close> or \<^verbatim>\<open>web.Bind\<close>), its route parameters and the remote address.
\<close>

record Request =
  req_Body :: string
  req_Params :: "(string \<times> string) list"
  req_RemoteAddr :: string

record ReqContext =
  c_SignedInUser :: SignedInUser
  c_Req :: Request

text \<open>\<^verbatim>\<open>web.Params(c.Req)[":code"]\<close>: a Go map read, the empty string for a missing key.\<close>

definition web_Params :: "Request \<Rightarrow> string \<Rightarrow> string" where
  "web_Params r k = (case map_of (req_Params r) k of None \<Rightarrow> [] | Some v \<Rightarrow> v)"

record User =
  usr_ID :: int
  usr_Email :: string
  usr_Name :: string
  usr_Login :: string

record TempUserDTO =
  dto_Code :: string
  dto_Email :: string
  dto_Name :: string
  dto_Status :: TempUserStatus
  dto_OrgId :: int
  dto_Role :: RoleType
  dto_InvitedByName :: string
  dto_InvitedByLogin :: string
  dto_InvitedByEmail :: string

record TempUser =
  tu_Code :: string

record AddInviteForm =
  aif_LoginOrEmail :: string
  aif_Name :: string
  aif_Role :: RoleType
  aif_SendEmail :: bool

record CompleteInviteForm =
  cif_InviteCode :: string
  cif_Email :: string
  cif_Name :: string
  cif_Username :: string
  cif_Password :: string

record InviteInfo =
  ii_Email :: string
  ii_Name :: string
  ii_Username :: string
  ii_InvitedBy :: string

record AddOrgUserCommand =
  aou_OrgId :: int
  aou_UserId :: int
  aou_Role :: RoleType

record SetUsingOrgCommand =
  suo_OrgId :: int
  suo_UserId :: int

record CreateTempUserCommand =
  ctu_OrgId :: int
  ctu_Email :: string
  ctu_Name :: string
  ctu_Status :: TempUserStatus
  ctu_InvitedByUserId :: int
  ctu_Code :: string
  ctu_Role :: RoleType
  ctu_RemoteAddr :: string

record CreateUserCommand =
  cu_Email :: string
  cu_Name :: string
  cu_Login :: string
  cu_Password :: string
  cu_SkipOrgSetup :: bool

record SendEmailCommand =
  se_To :: "string list"
  se_Template :: string
  se_Data :: "(string \<times> string) list"

record SignUpCompleted =
  ev_Name :: string
  ev_Email :: string

text \<open>\<^verbatim>\<open>ac.EvalPermission(action, scope)\<close> with \<^verbatim>\<open>ac.Scope(parts...)\<close>.\<close>

datatype Action = ActionOrgUsersAdd

datatype Evaluator = EvalPermission Action "string list"

text \<open>A \<^verbatim>\<open>data.Frame\<close> of the plugin SDK: http.go sets its name only.\<close>

record Frame =
  frame_Name :: string
  frame_Fields :: "string list"

type_synonym DashboardQuery = string

record IsSearchReadyResponse =
  rd_IsReady :: bool
  rd_Reason :: string

record DataResponse =
  resp_Frames :: "Frame list"
  resp_Error :: "error option"

section \<open>Responses\<close>

text \<open>
  The values of \<^verbatim>\<open>util.DynMap\<close> and the bodies handed to \<^verbatim>\<open>response.JSON\<close>.
\<close>

datatype dynval = DynString string | DynInt int

datatype body =
    Bytes string
  | InviteInfoBody InviteInfo
  | DynMap "(string \<times> dynval) list"

text \<open>
  A response is the call of the response package that built it:
  \<^verbatim>\<open>response.Error(status, message, err)\<close>, \<^verbatim>\<open>response.JSON(status, body)\<close> and
  \<^verbatim>\<open>response.Success(message)\<close>; \<open>response_nil\<close> is Go's nil, which
  \<^verbatim>\<open>updateTempUserStatus\<close> and \<^verbatim>\<open>applyUserInvite\<close> return beside \<^verbatim>\<open>true\<close>.
\<close>

datatype response =
    response_Error int string "error option"
  | response_JSON int body
  | response_Success string
  | response_nil

text \<open>
  Modelled from the spec: the response package is outside http.go; the spec's interface
  table gives a success message the status 200.
\<close>

fun status_of :: "response \<Rightarrow> int" where
  "status_of (response_Error st msg err) = st"
| "status_of (response_JSON st b) = st"
| "status_of (response_Success msg) = 200"
| "status_of response_nil = 0"

text \<open>The field \<open>k\<close> of a JSON object body, when the response carries one.\<close>

fun body_field :: "response \<Rightarrow> string \<Rightarrow> dynval option" where
  "body_field (response_JSON st (DynMap kvs)) k = map_of kvs k"
| "body_field r k = None"

section \<open>Collaborators\<close>

text \<open>
  The pure helpers http.go calls and does not define (the models, util, setting, web,
  json and SDK packages), taken as parameters.
\<close>

record deps =
  IsValid :: "RoleType \<Rightarrow> bool"
  Includes :: "RoleType \<Rightarrow> RoleType \<Rightarrow> bool"
  DisableLoginForm :: bool
  IsEmail :: "string \<Rightarrow> bool"
  ToAbsUrl :: "string \<Rightarrow> string"
  StringsFallback2 :: "string \<Rightarrow> string \<Rightarrow> string"
  StringsFallback3 :: "string \<Rightarrow> string \<Rightarrow> string \<Rightarrow> string"
  NameOrFallback :: "User \<Rightarrow> string"
  Itoa :: "int \<Rightarrow> string"
  err_Error :: "error \<Rightarrow> string"
  status_String :: "TempUserStatus \<Rightarrow> string"
  MarshalJSON :: "Frame \<Rightarrow> error + string"
  json_Unmarshal :: "string \<Rightarrow> error + DashboardQuery"
  Bind_AddInviteForm :: "Request \<Rightarrow> error + AddInviteForm"
  Bind_CompleteInviteForm :: "Request \<Rightarrow> error + CompleteInviteForm"

text \<open>
  The services behind the handlers (search service, metrics, user, temp-user and org
  stores, access control, notification service, event bus, session login), as functions
  on a state \<open>'s\<close> that they alone read and change. A call that can fail returns its
  error beside the new state.
\<close>

record 's env =
  IsReady :: "int \<Rightarrow> 's \<Rightarrow> IsSearchReadyResponse \<times> 's"
  NotServedCounter_Inc :: "string \<Rightarrow> 's \<Rightarrow> 's"
  io_ReadAll :: "string \<Rightarrow> 's \<Rightarrow> (error + string) \<times> 's"
  doDashboardQuery :: "SignedInUser \<Rightarrow> int \<Rightarrow> DashboardQuery \<Rightarrow> 's \<Rightarrow> DataResponse \<times> 's"
  GetByLogin :: "string \<Rightarrow> 's \<Rightarrow> (error + User) \<times> 's"
  Evaluate :: "SignedInUser \<Rightarrow> Evaluator \<Rightarrow> 's \<Rightarrow> (error + bool) \<times> 's"
  AddOrgUser :: "AddOrgUserCommand \<Rightarrow> 's \<Rightarrow> error option \<times> 's"
  GetRandomString :: "nat \<Rightarrow> 's \<Rightarrow> (error + string) \<times> 's"
  CreateTempUser :: "CreateTempUserCommand \<Rightarrow> 's \<Rightarrow> (error + TempUser) \<times> 's"
  SendEmailCommandHandler :: "SendEmailCommand \<Rightarrow> 's \<Rightarrow> error option \<times> 's"
  UpdateTempUserWithEmailSent :: "string \<Rightarrow> 's \<Rightarrow> error option \<times> 's"
  UpdateTempUserStatus :: "string \<Rightarrow> TempUserStatus \<Rightarrow> 's \<Rightarrow> error option \<times> 's"
  GetTempUserByCode :: "string \<Rightarrow> 's \<Rightarrow> (error + TempUserDTO) \<times> 's"
  CreateUser :: "CreateUserCommand \<Rightarrow> 's \<Rightarrow> (error + User) \<times> 's"
  Publish :: "SignUpCompleted \<Rightarrow> 's \<Rightarrow> error option \<times> 's"
  SetUsingOrg :: "SetUsingOrgCommand \<Rightarrow> 's \<Rightarrow> error option \<times> 's"
  loginUserWithUser :: "User \<Rightarrow> ReqContext \<Rightarrow> 's \<Rightarrow> error option \<times> 's"
  MApiUserSignUpCompleted_Inc :: "'s \<Rightarrow> 's"
  MApiUserSignUpInvite_Inc :: "'s \<Rightarrow> 's"

section \<open>The search proxy\<close>

definition doQuery :: "deps \<Rightarrow> 's env \<Rightarrow> ReqContext \<Rightarrow> 's \<Rightarrow> response \<times> 's" where
  "doQuery d env c s0 =
    (case IsReady env (su_OrgID (c_SignedInUser c)) s0 of
      (searchReadinessCheckResp, s1) \<Rightarrow>
        if \<not> rd_IsReady searchReadinessCheckResp then
          (let s2 = NotServedCounter_Inc env (rd_Reason searchReadinessCheckResp) s1 in
           case MarshalJSON d \<lparr>frame_Name = ''Loading'', frame_Fields = []\<rparr> of
             Inl err \<Rightarrow> (response_Error 500 ''error marshalling response'' (Some err), s2)
           | Inr bytes \<Rightarrow> (response_JSON 200 (Bytes bytes), s2))
        else
          (case io_ReadAll env (req_Body (c_Req c)) s1 of
            (Inl err, s2) \<Rightarrow> (response_Error 500 ''error reading bytes'' (Some err), s2)
          | (Inr body, s2) \<Rightarrow>
              (case json_Unmarshal d body of
                Inl err \<Rightarrow> (response_Error 400 ''error parsing body'' (Some err), s2)
              | Inr query \<Rightarrow>
                  (case doDashboardQuery env (c_SignedInUser c) (su_OrgID (c_SignedInUser c)) query s2 of
                    (resp, s3) \<Rightarrow>
                      (case resp_Error resp of
                        Some err \<Rightarrow>
                          (response_Error 500 ''error handling search request'' (Some err), s3)
                      | None \<Rightarrow>
                          if length (resp_Frames resp) \<noteq> 1 then
                            (response_Error 500 ''invalid search response''
                               (Some (errors_New ''invalid search response'')), s3)
                          else
                            (case MarshalJSON d (resp_Frames resp ! 0) of
                              Inl err \<Rightarrow>
                                (response_Error 500 ''error marshalling response'' (Some err), s3)
                            | Inr bytes \<Rightarrow> (response_JSON 200 (Bytes bytes), s3)))))))"

section \<open>The invite handlers\<close>

text \<open>The rune \<^verbatim>\<open>'\<close> of the format strings.\<close>

definition quote :: string where
  "quote = [CHR 0x27]"

definition inviteExistingUserToOrg ::
  "deps \<Rightarrow> 's env \<Rightarrow> ReqContext \<Rightarrow> User \<Rightarrow> AddInviteForm \<Rightarrow> 's \<Rightarrow> response \<times> 's" where
  "inviteExistingUserToOrg d env c user inviteDto s0 =
    (let createOrgUserCmd =
           \<lparr>aou_OrgId = su_OrgID (c_SignedInUser c), aou_UserId = usr_ID user,
            aou_Role = aif_Role inviteDto\<rparr>;
         done = response_JSON 200 (DynMap
           [(''message'', DynString (''Existing Grafana user '' @ NameOrFallback d user @
               '' added to org '' @ su_OrgName (c_SignedInUser c))),
            (''userId'', DynInt (usr_ID user))])
     in
     case AddOrgUser env createOrgUserCmd s0 of
       (Some err, s1) \<Rightarrow>
         if errors_Is err ErrOrgUserAlreadyAdded then
           (response_Error 412
              (''User '' @ aif_LoginOrEmail inviteDto @ '' is already added to organization'')
              (Some err), s1)
         else (response_Error 500 ''Error while trying to create org user'' (Some err), s1)
     | (None, s1) \<Rightarrow>
         if aif_SendEmail inviteDto \<and> IsEmail d (usr_Email user) then
           (let emailCmd =
                  \<lparr>se_To = [usr_Email user], se_Template = ''invited_to_org'',
                   se_Data =
                     [(''Name'', NameOrFallback d user),
                      (''OrgName'', su_OrgName (c_SignedInUser c)),
                      (''InvitedBy'', StringsFallback3 d (su_Name (c_SignedInUser c))
                         (su_Email (c_SignedInUser c)) (su_Login (c_SignedInUser c)))]\<rparr>
            in
            case SendEmailCommandHandler env emailCmd s1 of
              (Some err, s2) \<Rightarrow>
                (response_Error 500 ''Failed to send email invited_to_org'' (Some err), s2)
            | (None, s2) \<Rightarrow> (done, s2))
         else (done, s1))"

definition AddOrgInvite :: "deps \<Rightarrow> 's env \<Rightarrow> ReqContext \<Rightarrow> 's \<Rightarrow> response \<times> 's" where
  "AddOrgInvite d env c s0 =
    (case Bind_AddInviteForm d (c_Req c) of
      Inl err \<Rightarrow> (response_Error 400 ''bad request data'' (Some err), s0)
    | Inr inviteDto \<Rightarrow>
        if \<not> IsValid d (aif_Role inviteDto) then
          (response_Error 400 ''Invalid role specified'' None, s0)
        else if \<not> Includes d (su_OrgRole (c_SignedInUser c)) (aif_Role inviteDto)
                \<and> \<not> su_IsGrafanaAdmin (c_SignedInUser c) then
          (response_Error 403 ''Cannot assign a role higher than user's role'' None, s0)
        else
          (case GetByLogin env (aif_LoginOrEmail inviteDto) s0 of
            (Inr usr, s1) \<Rightarrow>
              (case Evaluate env (c_SignedInUser c)
                      (EvalPermission ActionOrgUsersAdd [''users'', ''id'', Itoa d (usr_ID usr)]) s1 of
                (Inl err, s2) \<Rightarrow>
                  (response_Error 500 ''Failed to evaluate permissions'' (Some err), s2)
              | (Inr hasAccess, s2) \<Rightarrow>
                  if \<not> hasAccess then
                    (response_Error 403
                       ''Permission denied: not permitted to add an existing user to this organisation''
                       None, s2)
                  else inviteExistingUserToOrg d env c usr inviteDto s2)
          | (Inl uerr, s1) \<Rightarrow>
              if \<not> errors_Is uerr ErrUserNotFound then
                (response_Error 500 ''Failed to query db for existing user check'' (Some uerr), s1)
              else if DisableLoginForm d then
                (response_Error 400 ''Cannot invite when login is disabled.'' None, s1)
              else
                (case GetRandomString env 30 s1 of
                  (Inl err, s2) \<Rightarrow>
                    (response_Error 500 ''Could not generate random string'' (Some err), s2)
                | (Inr code, s2) \<Rightarrow>
                    (let cmd =
                           \<lparr>ctu_OrgId = su_OrgID (c_SignedInUser c),
                            ctu_Email = aif_LoginOrEmail inviteDto,
                            ctu_Name = aif_Name inviteDto,
                            ctu_Status = TmpUserInvitePending,
                            ctu_InvitedByUserId = su_UserID (c_SignedInUser c),
                            ctu_Code = code,
                            ctu_Role = aif_Role inviteDto,
                            ctu_RemoteAddr = req_RemoteAddr (c_Req c)\<rparr>
                     in
                     case CreateTempUser env cmd s2 of
                       (Inl err, s3) \<Rightarrow>
                         (response_Error 500 ''Failed to save invite to database'' (Some err), s3)
                     | (Inr result, s3) \<Rightarrow>
                         if aif_SendEmail inviteDto \<and> IsEmail d (aif_LoginOrEmail inviteDto) then
                           (let emailCmd =
                                  \<lparr>se_To = [aif_LoginOrEmail inviteDto],
                                   se_Template = ''new_user_invite'',
                                   se_Data =
                                     [(''Name'', StringsFallback2 d (ctu_Name cmd) (ctu_Email cmd)),
                                      (''OrgName'', su_OrgName (c_SignedInUser c)),
                                      (''Email'', su_Email (c_SignedInUser c)),
                                      (''LinkUrl'', ToAbsUrl d (''invite/'' @ ctu_Code cmd)),
                                      (''InvitedBy'', StringsFallback3 d (su_Name (c_SignedInUser c))
                                         (su_Email (c_SignedInUser c))
                                         (su_Login (c_SignedInUser c)))]\<rparr>
                            in
                            case SendEmailCommandHandler env emailCmd s3 of
                              (Some err, s4) \<Rightarrow>
                                if errors_Is err ErrSmtpNotEnabled then
                                  (response_Error 412 (err_Error d err) (Some err), s4)
                                else (response_Error 500 ''Failed to send email invite'' (Some err), s4)
                            | (None, s4) \<Rightarrow>
                                (case UpdateTempUserWithEmailSent env (tu_Code result) s4 of
                                  (Some err, s5) \<Rightarrow>
                                    (response_Error 500
                                       ''Failed to update invite with email sent info'' (Some err), s5)
                                | (None, s5) \<Rightarrow>
                                    (response_Success
                                       (''Sent invite to '' @ aif_LoginOrEmail inviteDto), s5)))
                         else
                           (response_Success
                              (''Created invite for '' @ aif_LoginOrEmail inviteDto), s3)))))"

definition updateTempUserStatus ::
  "'s env \<Rightarrow> string \<Rightarrow> TempUserStatus \<Rightarrow> 's \<Rightarrow> (bool \<times> response) \<times> 's" where
  "updateTempUserStatus env code status s0 =
    (case UpdateTempUserStatus env code status s0 of
      (Some err, s1) \<Rightarrow>
        ((False, response_Error 500 ''Failed to update invite status'' (Some err)), s1)
    | (None, s1) \<Rightarrow> ((True, response_nil), s1))"

definition RevokeInvite :: "'s env \<Rightarrow> ReqContext \<Rightarrow> 's \<Rightarrow> response \<times> 's" where
  "RevokeInvite env c s0 =
    (case updateTempUserStatus env (web_Params (c_Req c) '':code'') TmpUserRevoked s0 of
      ((ok, rsp), s1) \<Rightarrow>
        if \<not> ok then (rsp, s1) else (response_Success ''Invite revoked'', s1))"

definition GetInviteInfoByCode :: "deps \<Rightarrow> 's env \<Rightarrow> ReqContext \<Rightarrow> 's \<Rightarrow> response \<times> 's" where
  "GetInviteInfoByCode d env c s0 =
    (case GetTempUserByCode env (web_Params (c_Req c) '':code'') s0 of
      (Inl err, s1) \<Rightarrow>
        if errors_Is err ErrTempUserNotFound then
          (response_Error 404 ''Invite not found'' None, s1)
        else (response_Error 500 ''Failed to get invite'' (Some err), s1)
    | (Inr invite, s1) \<Rightarrow>
        if dto_Status invite \<noteq> TmpUserInvitePending then
          (response_Error 404 ''Invite not found'' None, s1)
        else
          (response_JSON 200 (InviteInfoBody
             \<lparr>ii_Email = dto_Email invite,
              ii_Name = dto_Name invite,
              ii_Username = dto_Email invite,
              ii_InvitedBy = StringsFallback3 d (dto_InvitedByName invite)
                 (dto_InvitedByLogin invite) (dto_InvitedByEmail invite)\<rparr>), s1))"

definition applyUserInvite ::
  "'s env \<Rightarrow> User \<Rightarrow> TempUserDTO \<Rightarrow> bool \<Rightarrow> 's \<Rightarrow> (bool \<times> response) \<times> 's" where
  "applyUserInvite env usr invite setActive s0 =
    (let addOrgUserCmd =
           \<lparr>aou_OrgId = dto_OrgId invite, aou_UserId = usr_ID usr, aou_Role = dto_Role invite\<rparr>
     in
     case AddOrgUser env addOrgUserCmd s0 of
       (aerr, s1) \<Rightarrow>
         if (case aerr of None \<Rightarrow> False | Some err \<Rightarrow> \<not> errors_Is err ErrOrgUserAlreadyAdded) then
           ((False, response_Error 500 ''Error while trying to create org user'' aerr), s1)
         else
           (case updateTempUserStatus env (dto_Code invite) TmpUserCompleted s1 of
             ((ok, rsp), s2) \<Rightarrow>
               if \<not> ok then ((False, rsp), s2)
               else if setActive then
                 (case SetUsingOrg env
                         \<lparr>suo_OrgId = dto_OrgId invite, suo_UserId = usr_ID usr\<rparr> s2 of
                   (Some err, s3) \<Rightarrow>
                     ((False, response_Error 500 ''Failed to set org as active'' (Some err)), s3)
                 | (None, s3) \<Rightarrow> ((True, response_nil), s3))
               else ((True, response_nil), s2)))"

definition CompleteInvite :: "deps \<Rightarrow> 's env \<Rightarrow> ReqContext \<Rightarrow> 's \<Rightarrow> response \<times> 's" where
  "CompleteInvite d env c s0 =
    (case Bind_CompleteInviteForm d (c_Req c) of
      Inl err \<Rightarrow> (response_Error 400 ''bad request data'' (Some err), s0)
    | Inr completeInvite \<Rightarrow>
        (case GetTempUserByCode env (cif_InviteCode completeInvite) s0 of
          (Inl err, s1) \<Rightarrow>
            if errors_Is err ErrTempUserNotFound then
              (response_Error 404 ''Invite not found'' None, s1)
            else (response_Error 500 ''Failed to get invite'' (Some err), s1)
        | (Inr invite, s1) \<Rightarrow>
            if dto_Status invite \<noteq> TmpUserInvitePending then
              (response_Error 412
                 (''Invite cannot be used in status '' @ status_String d (dto_Status invite))
                 None, s1)
            else
              (let cmd =
                     \<lparr>cu_Email = cif_Email completeInvite,
                      cu_Name = cif_Name completeInvite,
                      cu_Login = cif_Username completeInvite,
                      cu_Password = cif_Password completeInvite,
                      cu_SkipOrgSetup = True\<rparr>
               in
               case CreateUser env cmd s1 of
                 (Inl err, s2) \<Rightarrow>
                   if errors_Is err ErrUserAlreadyExists then
                     (response_Error 412
                        (''User with email '' @ quote @ cif_Email completeInvite @ quote @
                         '' or username '' @ quote @ cif_Username completeInvite @ quote @
                         '' already exists'')
                        (Some err), s2)
                   else (response_Error 500 ''failed to create user'' (Some err), s2)
               | (Inr usr, s2) \<Rightarrow>
                   (case Publish env
                           \<lparr>ev_Name = NameOrFallback d usr, ev_Email = usr_Email usr\<rparr> s2 of
                     (Some err, s3) \<Rightarrow>
                       (response_Error 500 ''failed to publish event'' (Some err), s3)
                   | (None, s3) \<Rightarrow>
                       (case applyUserInvite env usr invite True s3 of
                         ((ok, rsp), s4) \<Rightarrow>
                           if \<not> ok then (rsp, s4)
                           else
                             (case loginUserWithUser env usr c s4 of
                               (Some err, s5) \<Rightarrow>
                                 (response_Error 500 ''failed to accept invite'' (Some err), s5)
                             | (None, s5) \<Rightarrow>
                                 (let s6 = MApiUserSignUpCompleted_Inc env s5;
                                      s7 = MApiUserSignUpInvite_Inc env s6
                                  in
                                  (response_JSON 200 (DynMap
                                     [(''message'', DynString ''User created and logged in''),
                                      (''id'', DynInt (usr_ID usr))]), s7))))))))"

text \<open>
  What \<^verbatim>\<open>applyUserInvite\<close> lets pass from \<^verbatim>\<open>AddOrgUser\<close>: no error, or the
  already-a-member sentinel.
\<close>

definition tolerated :: "error option \<Rightarrow> bool" where
  "tolerated a = (case a of None \<Rightarrow> True | Some e \<Rightarrow> errors_Is e ErrOrgUserAlreadyAdded)"

section \<open>Observing the calls\<close>

text \<open>
  What a handler asks of its collaborators, in the order it asks: one event per call,
  holding the arguments and the answer.
\<close>

datatype event =
    E_IsReady int IsSearchReadyResponse
  | E_NotServedCounter_Inc string
  | E_ReadAll string "error + string"
  | E_doDashboardQuery SignedInUser int DashboardQuery DataResponse
  | E_GetByLogin string "error + User"
  | E_Evaluate SignedInUser Evaluator "error + bool"
  | E_AddOrgUser AddOrgUserCommand "error option"
  | E_GetRandomString nat "error + string"
  | E_CreateTempUser CreateTempUserCommand "error + TempUser"
  | E_SendEmail SendEmailCommand "error option"
  | E_UpdateTempUserWithEmailSent string "error option"
  | E_UpdateTempUserStatus string TempUserStatus "error option"
  | E_GetTempUserByCode string "error + TempUserDTO"
  | E_CreateUser CreateUserCommand "error + User"
  | E_Publish SignUpCompleted "error option"
  | E_SetUsingOrg SetUsingOrgCommand "error option"
  | E_loginUserWithUser User "error option"
  | E_SignUpCompleted_Inc
  | E_SignUpInvite_Inc

definition observe ::
  "('r \<Rightarrow> event) \<Rightarrow> ('s \<Rightarrow> 'r \<times> 's) \<Rightarrow> 's \<times> event list \<Rightarrow> 'r \<times> ('s \<times> event list)" where
  "observe mk f = (\<lambda>(s, l). case f s of (r, s') \<Rightarrow> (r, (s', l @ [mk r])))"

definition observe_tick ::
  "event \<Rightarrow> ('s \<Rightarrow> 's) \<Rightarrow> 's \<times> event list \<Rightarrow> 's \<times> event list" where
  "observe_tick ev f = (\<lambda>(s, l). (f s, l @ [ev]))"

text \<open>
  The same collaborators, each call appended to a log kept beside their state. The
  handlers cannot see the log: it only records what they did.
\<close>

definition logged :: "'s env \<Rightarrow> ('s \<times> event list) env" where
  "logged env =
    \<lparr>IsReady = (\<lambda>org. observe (E_IsReady org) (IsReady env org)),
     NotServedCounter_Inc = (\<lambda>reason. observe_tick (E_NotServedCounter_Inc reason)
        (NotServedCounter_Inc env reason)),
     io_ReadAll = (\<lambda>b. observe (E_ReadAll b) (io_ReadAll env b)),
     doDashboardQuery = (\<lambda>su org q. observe (E_doDashboardQuery su org q)
        (doDashboardQuery env su org q)),
     GetByLogin = (\<lambda>l. observe (E_GetByLogin l) (GetByLogin env l)),
     Evaluate = (\<lambda>su ev. observe (E_Evaluate su ev) (Evaluate env su ev)),
     AddOrgUser = (\<lambda>cmd. observe (E_AddOrgUser cmd) (AddOrgUser env cmd)),
     GetRandomString = (\<lambda>n. observe (E_GetRandomString n) (GetRandomString env n)),
     CreateTempUser = (\<lambda>cmd. observe (E_CreateTempUser cmd) (CreateTempUser env cmd)),
     SendEmailCommandHandler = (\<lambda>cmd. observe (E_SendEmail cmd) (SendEmailCommandHandler env cmd)),
     UpdateTempUserWithEmailSent = (\<lambda>code. observe (E_UpdateTempUserWithEmailSent code)
        (UpdateTempUserWithEmailSent env code)),
     UpdateTempUserStatus = (\<lambda>code st. observe (E_UpdateTempUserStatus code st)
        (UpdateTempUserStatus env code st)),
     GetTempUserByCode = (\<lambda>code. observe (E_GetTempUserByCode code) (GetTempUserByCode env code)),
     CreateUser = (\<lambda>cmd. observe (E_CreateUser cmd) (CreateUser env cmd)),
     Publish = (\<lambda>ev. observe (E_Publish ev) (Publish env ev)),
     SetUsingOrg = (\<lambda>cmd. observe (E_SetUsingOrg cmd) (SetUsingOrg env cmd)),
     loginUserWithUser = (\<lambda>usr c. observe (E_loginUserWithUser usr) (loginUserWithUser env usr c)),
     MApiUserSignUpCompleted_Inc = observe_tick E_SignUpCompleted_Inc (MApiUserSignUpCompleted_Inc env),
     MApiUserSignUpInvite_Inc = observe_tick E_SignUpInvite_Inc (MApiUserSignUpInvite_Inc env)\<rparr>"

text \<open>The events that create an invite record, and those that change an invite's status.\<close>

fun is_CreateTempUser :: "event \<Rightarrow> bool" where
  "is_CreateTempUser (E_CreateTempUser cmd r) = True"
| "is_CreateTempUser e = False"

fun is_UpdateTempUserStatus :: "event \<Rightarrow> bool" where
  "is_UpdateTempUserStatus (E_UpdateTempUserStatus code st r) = True"
| "is_UpdateTempUserStatus e = False"

section \<open>A store to run the handlers on\<close>

text \<open>
  Modelled from the spec: the stores and services are outside http.go. The state holds
  the invites, the users, the memberships, each user's active org, the sessions, the
  mail sent, the not-served counter's increments by reason, the sign-up counters, and
  what the search service answers.
\<close>

record world =
  w_invites :: "TempUserDTO list"
  w_users :: "User list"
  w_members :: "AddOrgUserCommand list"
  w_active :: "SetUsingOrgCommand list"
  w_sessions :: "int list"
  w_mail :: "SendEmailCommand list"
  w_notserved :: "string list"
  w_signups :: "nat \<times> nat"
  w_ready :: IsSearchReadyResponse
  w_frames :: "Frame list"

text \<open>
  Modelled from the spec: an invite is looked up by its code, and an unknown code is
  the not-found sentinel.
\<close>

definition store_GetTempUserByCode :: "string \<Rightarrow> world \<Rightarrow> (error + TempUserDTO) \<times> world" where
  "store_GetTempUserByCode code w =
    (case find (\<lambda>i. dto_Code i = code) (w_invites w) of
      None \<Rightarrow> (Inl ErrTempUserNotFound, w)
    | Some i \<Rightarrow> (Inr i, w))"

text \<open>
  Modelled from the spec: the state machine over an invite is pending to completed or
  revoked, both terminal, no other transition permitted; the update fails if the code
  is unknown or already in a terminal state.
\<close>

definition store_UpdateTempUserStatus ::
  "string \<Rightarrow> TempUserStatus \<Rightarrow> world \<Rightarrow> error option \<times> world" where
  "store_UpdateTempUserStatus code st w =
    (case find (\<lambda>i. dto_Code i = code) (w_invites w) of
      None \<Rightarrow> (Some (ErrOther ''unknown code''), w)
    | Some i \<Rightarrow>
        if dto_Status i \<noteq> TmpUserInvitePending then (Some (ErrOther ''terminal state''), w)
        else (None, w\<lparr>w_invites :=
                map (\<lambda>j. if dto_Code j = code then j\<lparr>dto_Status := st\<rparr> else j) (w_invites w)\<rparr>))"

text \<open>Modelled from the spec: a pending invite record is created from the command.\<close>

definition store_CreateTempUser ::
  "CreateTempUserCommand \<Rightarrow> world \<Rightarrow> (error + TempUser) \<times> world" where
  "store_CreateTempUser cmd w =
    (Inr \<lparr>tu_Code = ctu_Code cmd\<rparr>,
     w\<lparr>w_invites := w_invites w @
        [\<lparr>dto_Code = ctu_Code cmd, dto_Email = ctu_Email cmd, dto_Name = ctu_Name cmd,
          dto_Status = ctu_Status cmd, dto_OrgId = ctu_OrgId cmd, dto_Role = ctu_Role cmd,
          dto_InvitedByName = [], dto_InvitedByLogin = [], dto_InvitedByEmail = []\<rparr>]\<rparr>)"

text \<open>Modelled from the spec: a user is found by login or email.\<close>

definition store_GetByLogin :: "string \<Rightarrow> world \<Rightarrow> (error + User) \<times> world" where
  "store_GetByLogin l w =
    (case find (\<lambda>u. usr_Login u = l \<or> usr_Email u = l) (w_users w) of
      None \<Rightarrow> (Inl ErrUserNotFound, w)
    | Some u \<Rightarrow> (Inr u, w))"

text \<open>
  Modelled from the spec: creating an account fails distinctly if the account already
  exists; the new user gets a fresh id.
\<close>

definition store_CreateUser :: "CreateUserCommand \<Rightarrow> world \<Rightarrow> (error + User) \<times> world" where
  "store_CreateUser cmd w =
    (if \<exists>u \<in> set (w_users w). usr_Login u = cu_Login cmd \<or> usr_Email u = cu_Email cmd then
       (Inl ErrUserAlreadyExists, w)
     else
       (let u = \<lparr>usr_ID = 1 + fold max (map usr_ID (w_users w)) 0, usr_Email = cu_Email cmd,
                 usr_Name = cu_Name cmd, usr_Login = cu_Login cmd\<rparr>
        in (Inr u, w\<lparr>w_users := w_users w @ [u]\<rparr>)))"

text \<open>
  Modelled from the spec: at most one membership per (user, org) pair; a duplicate add
  is the already-added sentinel.
\<close>

definition store_AddOrgUser :: "AddOrgUserCommand \<Rightarrow> world \<Rightarrow> error option \<times> world" where
  "store_AddOrgUser cmd w =
    (if \<exists>m \<in> set (w_members w). aou_OrgId m = aou_OrgId cmd \<and> aou_UserId m = aou_UserId cmd then
       (Some ErrOrgUserAlreadyAdded, w)
     else (None, w\<lparr>w_members := w_members w @ [cmd]\<rparr>))"

definition store_SetUsingOrg :: "SetUsingOrgCommand \<Rightarrow> world \<Rightarrow> error option \<times> world" where
  "store_SetUsingOrg cmd w =
    (None, w\<lparr>w_active := cmd # filter (\<lambda>a. suo_UserId a \<noteq> suo_UserId cmd) (w_active w)\<rparr>)"

text \<open>
  Modelled from the spec: access control is an opaque evaluator; here it approves
  org admins and superusers.
\<close>

definition store_Evaluate :: "SignedInUser \<Rightarrow> Evaluator \<Rightarrow> world \<Rightarrow> (error + bool) \<times> world" where
  "store_Evaluate su ev w = (Inr (su_OrgRole su = ''Admin'' \<or> su_IsGrafanaAdmin su), w)"

definition store :: "world env" where
  "store =
    \<lparr>IsReady = (\<lambda>org w. (w_ready w, w)),
     NotServedCounter_Inc = (\<lambda>reason w. w\<lparr>w_notserved := w_notserved w @ [reason]\<rparr>),
     io_ReadAll = (\<lambda>b w. (Inr b, w)),
     doDashboardQuery = (\<lambda>su org q w. (\<lparr>resp_Frames = w_frames w, resp_Error = None\<rparr>, w)),
     GetByLogin = store_GetByLogin,
     Evaluate = store_Evaluate,
     AddOrgUser = store_AddOrgUser,
     GetRandomString = (\<lambda>n w. (Inr (replicate n (CHR ''k'')), w)),
     CreateTempUser = store_CreateTempUser,
     SendEmailCommandHandler = (\<lambda>cmd w. (None, w\<lparr>w_mail := w_mail w @ [cmd]\<rparr>)),
     UpdateTempUserWithEmailSent = (\<lambda>code w. (None, w)),
     UpdateTempUserStatus = store_UpdateTempUserStatus,
     GetTempUserByCode = store_GetTempUserByCode,
     CreateUser = store_CreateUser,
     Publish = (\<lambda>ev w. (None, w)),
     SetUsingOrg = store_SetUsingOrg,
     loginUserWithUser = (\<lambda>usr c w. (None, w\<lparr>w_sessions := usr_ID usr # w_sessions w\<rparr>)),
     MApiUserSignUpCompleted_Inc = (\<lambda>w. w\<lparr>w_signups := (Suc (fst (w_signups w)), snd (w_signups w))\<rparr>),
     MApiUserSignUpInvite_Inc = (\<lambda>w. w\<lparr>w_signups := (fst (w_signups w), Suc (snd (w_signups w)))\<rparr>)\<rparr>"

text \<open>
  Modelled from the spec: a role is well-formed when it is one of the three org roles,
  and a role includes the roles that are not higher than it. The other helpers are the
  simplest ones of their type: the names fall back to the first non-empty string, a
  body binds to the form the request carries as text fields separated by commas.
\<close>

definition role_rank :: "RoleType \<Rightarrow> nat" where
  "role_rank r = (if r = ''Admin'' then 3 else if r = ''Editor'' then 2 else if r = ''Viewer'' then 1 else 0)"

fun fallback :: "string list \<Rightarrow> string" where
  "fallback [] = []"
| "fallback (v # vs) = (if v \<noteq> [] then v else fallback vs)"

fun split_commas :: "string \<Rightarrow> string \<Rightarrow> string list" where
  "split_commas acc [] = [rev acc]"
| "split_commas acc (ch # cs) =
     (if ch = CHR '','' then rev acc # split_commas [] cs else split_commas (ch # acc) cs)"

definition bind_add :: "Request \<Rightarrow> error + AddInviteForm" where
  "bind_add r =
    (case split_commas [] (req_Body r) of
      [l, n, ro, se] \<Rightarrow>
        Inr \<lparr>aif_LoginOrEmail = l, aif_Name = n, aif_Role = ro, aif_SendEmail = (se = ''true'')\<rparr>
    | _ \<Rightarrow> Inl (ErrOther ''bad body''))"

definition bind_complete :: "Request \<Rightarrow> error + CompleteInviteForm" where
  "bind_complete r =
    (case split_commas [] (req_Body r) of
      [code, e, n, u, p] \<Rightarrow>
        Inr \<lparr>cif_InviteCode = code, cif_Email = e, cif_Name = n, cif_Username = u, cif_Password = p\<rparr>
    | _ \<Rightarrow> Inl (ErrOther ''bad body''))"

text \<open>\<^verbatim>\<open>strconv.Itoa\<close>: the decimal digits of an int, with its sign.\<close>

function decimal :: "nat \<Rightarrow> string" where
  "decimal n =
    (if n < 10 then [''0123456789'' ! n] else decimal (n div 10) @ [''0123456789'' ! (n mod 10)])"
  by pat_completeness auto
termination
  by (relation "measure id") auto

declare decimal.simps [simp del]

definition strconv_Itoa :: "int \<Rightarrow> string" where
  "strconv_Itoa i = (if i < 0 then CHR ''-'' # decimal (nat (- i)) else decimal (nat i))"

definition status_name :: "TempUserStatus \<Rightarrow> string" where
  "status_name st =
    (case st of TmpUserInvitePending \<Rightarrow> ''InvitePending'' | TmpUserRevoked \<Rightarrow> ''Revoked''
     | TmpUserCompleted \<Rightarrow> ''Completed'')"

definition helpers :: deps where
  "helpers =
    \<lparr>IsValid = (\<lambda>r. r = ''Viewer'' \<or> r = ''Editor'' \<or> r = ''Admin''),
     Includes = (\<lambda>r other. role_rank other \<le> role_rank r),
     DisableLoginForm = False,
     IsEmail = (\<lambda>s. CHR ''@'' \<in> set s),
     ToAbsUrl = (\<lambda>p. ''/'' @ p),
     StringsFallback2 = (\<lambda>a b. fallback [a, b]),
     StringsFallback3 = (\<lambda>a b c. fallback [a, b, c]),
     NameOrFallback = (\<lambda>u. fallback [usr_Name u, usr_Login u, usr_Email u]),
     Itoa = strconv_Itoa,
     err_Error = (\<lambda>e. ''error''),
     status_String = status_name,
     MarshalJSON = (\<lambda>f. Inr (''{name:'' @ frame_Name f @ ''}'')),
     json_Unmarshal = (\<lambda>b. if b = [] then Inl (ErrOther ''unexpected end of JSON input'') else Inr b),
     Bind_AddInviteForm = bind_add,
     Bind_CompleteInviteForm = bind_complete\<rparr>"

section \<open>Example inputs\<close>

definition editor :: SignedInUser where
  "editor =
    \<lparr>su_UserID = 7, su_OrgID = 1, su_OrgRole = ''Editor'', su_IsGrafanaAdmin = False,
     su_OrgName = ''Main Org.'', su_Email = ''ed@example.org'', su_Name = ''Ed'', su_Login = ''ed''\<rparr>"

definition org_admin :: SignedInUser where
  "org_admin =
    \<lparr>su_UserID = 3, su_OrgID = 1, su_OrgRole = ''Admin'', su_IsGrafanaAdmin = False,
     su_OrgName = ''Main Org.'', su_Email = ''ann@example.org'', su_Name = ''Ann'', su_Login = ''ann''\<rparr>"

definition request :: "SignedInUser \<Rightarrow> string \<Rightarrow> string \<Rightarrow> ReqContext" where
  "request su body code =
    \<lparr>c_SignedInUser = su,
     c_Req = \<lparr>req_Body = body, req_Params = [('':code'', code)], req_RemoteAddr = ''10.0.0.1''\<rparr>\<rparr>"

definition invite_abc :: TempUserDTO where
  "invite_abc =
    \<lparr>dto_Code = ''abc'', dto_Email = ''new@example.org'', dto_Name = ''New'',
     dto_Status = TmpUserInvitePending, dto_OrgId = 1, dto_Role = ''Viewer'',
     dto_InvitedByName = ''Ann'', dto_InvitedByLogin = ''ann'',
     dto_InvitedByEmail = ''ann@example.org''\<rparr>"

definition invite_old :: TempUserDTO where
  "invite_old =
    \<lparr>dto_Code = ''old'', dto_Email = ''bob@example.org'', dto_Name = ''Bob'',
     dto_Status = TmpUserCompleted, dto_OrgId = 1, dto_Role = ''Viewer'',
     dto_InvitedByName = ''Ann'', dto_InvitedByLogin = ''ann'',
     dto_InvitedByEmail = ''ann@example.org''\<rparr>"

definition bob :: User where
  "bob = \<lparr>usr_ID = 2, usr_Email = ''bob@example.org'', usr_Name = ''Bob'', usr_Login = ''bob''\<rparr>"

definition carol :: User where
  "carol = \<lparr>usr_ID = 5, usr_Email = ''carol@example.org'', usr_Name = [], usr_Login = ''carol''\<rparr>"

definition warming :: world where
  "warming =
    \<lparr>w_invites = [invite_abc, invite_old],
     w_users = [bob, carol],
     w_members = [\<lparr>aou_OrgId = 1, aou_UserId = 2, aou_Role = ''Viewer''\<rparr>],
     w_active = [],
     w_sessions = [],
     w_mail = [],
     w_notserved = [],
     w_signups = (0, 0),
     w_ready = \<lparr>rd_IsReady = False, rd_Reason = ''initial-indexing-ongoing''\<rparr>,
     w_frames = []\<rparr>"

definition serving :: "Frame list \<Rightarrow> world" where
  "serving fs = warming\<lparr>w_ready := \<lparr>rd_IsReady = True, rd_Reason = []\<rparr>, w_frames := fs\<rparr>"

definition newbie :: User where
  "newbie = \<lparr>usr_ID = 6, usr_Email = ''new@example.org'', usr_Name = ''New'', usr_Login = ''newbie''\<rparr>"

text \<open>The store after the invite \<open>abc\<close> has been completed by \<open>newbie\<close>.\<close>

definition joined :: world where
  "joined =
    warming\<lparr>w_invites := [invite_abc\<lparr>dto_Status := TmpUserCompleted\<rparr>, invite_old],
       w_users := [bob, carol, newbie],
       w_members := [\<lparr>aou_OrgId = 1, aou_UserId = 2, aou_Role = ''Viewer''\<rparr>,
          \<lparr>aou_OrgId = 1, aou_UserId = 6, aou_Role = ''Viewer''\<rparr>],
       w_active := [\<lparr>suo_OrgId = 1, suo_UserId = 6\<rparr>],
       w_sessions := [6],
       w_signups := (1, 1)\<rparr>"

definition signup :: "string \<Rightarrow> ReqContext" where
  "signup code = request editor (code @ '',new@example.org,New,newbie,secret'') []"

definition hits :: Frame where
  "hits = \<lparr>frame_Name = ''hits'', frame_Fields = [''title'', ''url'']\<rparr>"

definition invite_form :: "string \<Rightarrow> string \<Rightarrow> AddInviteForm" where
  "invite_form who role =
    \<lparr>aif_LoginOrEmail = who, aif_Name = [], aif_Role = role, aif_SendEmail = False\<rparr>"

definition invite_request :: "SignedInUser \<Rightarrow> string \<Rightarrow> string \<Rightarrow> ReqContext" where
  "invite_request su who role = request su (who @ '',,'' @ role @ '',false'') []"

section \<open>Facts about the log\<close>

lemmas handlers = CompleteInvite_def applyUserInvite_def updateTempUserStatus_def
  RevokeInvite_def GetInviteInfoByCode_def AddOrgInvite_def inviteExistingUserToOrg_def doQuery_def

lemmas collaborators = store_def store_GetTempUserByCode_def store_UpdateTempUserStatus_def
  store_CreateTempUser_def store_GetByLogin_def store_CreateUser_def store_AddOrgUser_def
  store_SetUsingOrg_def store_Evaluate_def helpers_def bind_add_def bind_complete_def
  status_name_def role_rank_def strconv_Itoa_def decimal.simps quote_def web_Params_def
  errors_New_def Let_def

lemmas examples = editor_def org_admin_def request_def invite_abc_def invite_old_def bob_def
  carol_def warming_def serving_def newbie_def joined_def signup_def hits_def invite_form_def
  invite_request_def

lemma logged_sel:
  "IsReady (logged env) org (s, l) =
     (case IsReady env org s of (r, s') \<Rightarrow> (r, (s', l @ [E_IsReady org r])))"
  "NotServedCounter_Inc (logged env) reason (s, l) =
     (NotServedCounter_Inc env reason s, l @ [E_NotServedCounter_Inc reason])"
  "io_ReadAll (logged env) b (s, l) =
     (case io_ReadAll env b s of (r, s') \<Rightarrow> (r, (s', l @ [E_ReadAll b r])))"
  "doDashboardQuery (logged env) su org q (s, l) =
     (case doDashboardQuery env su org q s of
        (r, s') \<Rightarrow> (r, (s', l @ [E_doDashboardQuery su org q r])))"
  "GetByLogin (logged env) lg (s, l) =
     (case GetByLogin env lg s of (r, s') \<Rightarrow> (r, (s', l @ [E_GetByLogin lg r])))"
  "Evaluate (logged env) su ev (s, l) =
     (case Evaluate env su ev s of (r, s') \<Rightarrow> (r, (s', l @ [E_Evaluate su ev r])))"
  "AddOrgUser (logged env) acmd (s, l) =
     (case AddOrgUser env acmd s of (r, s') \<Rightarrow> (r, (s', l @ [E_AddOrgUser acmd r])))"
  "GetRandomString (logged env) n (s, l) =
     (case GetRandomString env n s of (r, s') \<Rightarrow> (r, (s', l @ [E_GetRandomString n r])))"
  "CreateTempUser (logged env) tcmd (s, l) =
     (case CreateTempUser env tcmd s of (r, s') \<Rightarrow> (r, (s', l @ [E_CreateTempUser tcmd r])))"
  "SendEmailCommandHandler (logged env) ecmd (s, l) =
     (case SendEmailCommandHandler env ecmd s of (r, s') \<Rightarrow> (r, (s', l @ [E_SendEmail ecmd r])))"
  "UpdateTempUserWithEmailSent (logged env) code (s, l) =
     (case UpdateTempUserWithEmailSent env code s of
        (r, s') \<Rightarrow> (r, (s', l @ [E_UpdateTempUserWithEmailSent code r])))"
  "UpdateTempUserStatus (logged env) code st (s, l) =
     (case UpdateTempUserStatus env code st s of
        (r, s') \<Rightarrow> (r, (s', l @ [E_UpdateTempUserStatus code st r])))"
  "GetTempUserByCode (logged env) code (s, l) =
     (case GetTempUserByCode env code s of
        (r, s') \<Rightarrow> (r, (s', l @ [E_GetTempUserByCode code r])))"
  "CreateUser (logged env) ucmd (s, l) =
     (case CreateUser env ucmd s of (r, s') \<Rightarrow> (r, (s', l @ [E_CreateUser ucmd r])))"
  "Publish (logged env) pev (s, l) =
     (case Publish env pev s of (r, s') \<Rightarrow> (r, (s', l @ [E_Publish pev r])))"
  "SetUsingOrg (logged env) ocmd (s, l) =
     (case SetUsingOrg env ocmd s of (r, s') \<Rightarrow> (r, (s', l @ [E_SetUsingOrg ocmd r])))"
  "loginUserWithUser (logged env) usr c (s, l) =
     (case loginUserWithUser env usr c s of
        (r, s') \<Rightarrow> (r, (s', l @ [E_loginUserWithUser usr r])))"
  "MApiUserSignUpCompleted_Inc (logged env) (s, l) =
     (MApiUserSignUpCompleted_Inc env s, l @ [E_SignUpCompleted_Inc])"
  "MApiUserSignUpInvite_Inc (logged env) (s, l) =
     (MApiUserSignUpInvite_Inc env s, l @ [E_SignUpInvite_Inc])"
  by (simp_all add: logged_def observe_def observe_tick_def)

lemma updateTempUserStatus_logged:
  assumes "UpdateTempUserStatus env code st s = (u, s1)"
  shows "updateTempUserStatus (logged env) code st (s, l) =
     ((u = None, case u of None \<Rightarrow> response_nil
                 | Some e \<Rightarrow> response_Error 500 ''Failed to update invite status'' (Some e)),
      (s1, l @ [E_UpdateTempUserStatus code st u]))"
  using assms by (cases u) (simp_all add: updateTempUserStatus_def logged_sel)

lemma tolerated_cond:
  "(case a of None \<Rightarrow> False | Some err \<Rightarrow> \<not> errors_Is err ErrOrgUserAlreadyAdded) = (\<not> tolerated a)"
  by (cases a) (simp_all add: tolerated_def)

lemma applyUserInvite_eq:
  assumes A: "AddOrgUser env \<lparr>aou_OrgId = dto_OrgId invite, aou_UserId = usr_ID usr, aou_Role = dto_Role invite\<rparr> s = (a, s1)"
    and U: "UpdateTempUserStatus env (dto_Code invite) TmpUserCompleted s1 = (u, s2)"
    and O: "SetUsingOrg env \<lparr>suo_OrgId = dto_OrgId invite, suo_UserId = usr_ID usr\<rparr> s2 = (so, s3)"
  shows "applyUserInvite (logged env) usr invite True (s, l) =
    (if \<not> tolerated a then
       ((False, response_Error 500 ''Error while trying to create org user'' a),
        (s1, l @ [E_AddOrgUser \<lparr>aou_OrgId = dto_OrgId invite, aou_UserId = usr_ID usr, aou_Role = dto_Role invite\<rparr> a]))
     else case u of
       Some e \<Rightarrow>
         ((False, response_Error 500 ''Failed to update invite status'' (Some e)),
          (s2, l @ [E_AddOrgUser \<lparr>aou_OrgId = dto_OrgId invite, aou_UserId = usr_ID usr, aou_Role = dto_Role invite\<rparr> a,
                    E_UpdateTempUserStatus (dto_Code invite) TmpUserCompleted (Some e)]))
     | None \<Rightarrow>
        (case so of
          Some e \<Rightarrow>
            ((False, response_Error 500 ''Failed to set org as active'' (Some e)),
             (s3, l @ [E_AddOrgUser \<lparr>aou_OrgId = dto_OrgId invite, aou_UserId = usr_ID usr, aou_Role = dto_Role invite\<rparr> a,
                       E_UpdateTempUserStatus (dto_Code invite) TmpUserCompleted None,
                       E_SetUsingOrg \<lparr>suo_OrgId = dto_OrgId invite, suo_UserId = usr_ID usr\<rparr> (Some e)]))
        | None \<Rightarrow>
            ((True, response_nil),
             (s3, l @ [E_AddOrgUser \<lparr>aou_OrgId = dto_OrgId invite, aou_UserId = usr_ID usr, aou_Role = dto_Role invite\<rparr> a,
                       E_UpdateTempUserStatus (dto_Code invite) TmpUserCompleted None,
                       E_SetUsingOrg \<lparr>suo_OrgId = dto_OrgId invite, suo_UserId = usr_ID usr\<rparr> None]))))"
proof (cases "tolerated a")
  case False
  then show ?thesis using A by (simp add: applyUserInvite_def logged_sel tolerated_cond)
next
  case True
  show ?thesis
  proof (cases u)
    case (Some e)
    with True show ?thesis using A updateTempUserStatus_logged [OF U]
      by (simp add: applyUserInvite_def logged_sel tolerated_cond)
  next
    case None
    with True show ?thesis using A O updateTempUserStatus_logged [OF U]
      by (cases so) (simp_all add: applyUserInvite_def logged_sel tolerated_cond)
  qed
qed

lemma CompleteInvite_eq:
  assumes B: "Bind_CompleteInviteForm d (c_Req c) = Inr form"
    and G: "GetTempUserByCode env (cif_InviteCode form) s = (Inr invite, s1)"
    and pend: "dto_Status invite = TmpUserInvitePending"
    and C: "CreateUser env \<lparr>cu_Email = cif_Email form, cu_Name = cif_Name form,
              cu_Login = cif_Username form, cu_Password = cif_Password form,
              cu_SkipOrgSetup = True\<rparr> s1 = (Inr usr, s2)"
    and P: "Publish env \<lparr>ev_Name = NameOrFallback d usr, ev_Email = usr_Email usr\<rparr> s2 = (None, s3)"
    and A: "AddOrgUser env \<lparr>aou_OrgId = dto_OrgId invite, aou_UserId = usr_ID usr, aou_Role = dto_Role invite\<rparr> s3 = (a, s4)"
    and U: "UpdateTempUserStatus env (dto_Code invite) TmpUserCompleted s4 = (u, s5)"
    and O: "SetUsingOrg env \<lparr>suo_OrgId = dto_OrgId invite, suo_UserId = usr_ID usr\<rparr> s5 = (so, s6)"
    and L: "loginUserWithUser env usr c s6 = (lo, s7)"
  shows "CompleteInvite d (logged env) c (s, []) =
    (let pre = [E_GetTempUserByCode (cif_InviteCode form) (Inr invite),
                E_CreateUser \<lparr>cu_Email = cif_Email form, cu_Name = cif_Name form,
                  cu_Login = cif_Username form, cu_Password = cif_Password form,
                  cu_SkipOrgSetup = True\<rparr> (Inr usr),
                E_Publish \<lparr>ev_Name = NameOrFallback d usr, ev_Email = usr_Email usr\<rparr> None];
         add = E_AddOrgUser \<lparr>aou_OrgId = dto_OrgId invite, aou_UserId = usr_ID usr, aou_Role = dto_Role invite\<rparr> a;
         upd = E_UpdateTempUserStatus (dto_Code invite) TmpUserCompleted u;
         act = E_SetUsingOrg \<lparr>suo_OrgId = dto_OrgId invite, suo_UserId = usr_ID usr\<rparr> so;
         login = E_loginUserWithUser usr lo
     in
     if \<not> tolerated a then
       (response_Error 500 ''Error while trying to create org user'' a, (s4, pre @ [add]))
     else if u \<noteq> None then
       (response_Error 500 ''Failed to update invite status'' u, (s5, pre @ [add, upd]))
     else if so \<noteq> None then
       (response_Error 500 ''Failed to set org as active'' so, (s6, pre @ [add, upd, act]))
     else if lo \<noteq> None then
       (response_Error 500 ''failed to accept invite'' lo, (s7, pre @ [add, upd, act, login]))
     else
       (response_JSON 200 (DynMap
          [(''message'', DynString ''User created and logged in''), (''id'', DynInt (usr_ID usr))]),
        (MApiUserSignUpInvite_Inc env (MApiUserSignUpCompleted_Inc env s7),
         pre @ [add, upd, act, login, E_SignUpCompleted_Inc, E_SignUpInvite_Inc])))"
proof -
  note ap = applyUserInvite_eq [OF A U O]
  show ?thesis
    using B G pend C P L
    by (cases u; cases so; cases lo)
       (simp_all add: CompleteInvite_def logged_sel ap Let_def)
qed

lemma CompleteInvite_200:
  assumes run: "CompleteInvite d (logged env) c (s, []) = (r, (s', log))"
    and ok: "status_of r = 200"
  shows "\<exists>form invite usr a s1 s2.
      Bind_CompleteInviteForm d (c_Req c) = Inr form
    \<and> GetTempUserByCode env (cif_InviteCode form) s = (Inr invite, s1)
    \<and> dto_Status invite = TmpUserInvitePending
    \<and> CreateUser env \<lparr>cu_Email = cif_Email form, cu_Name = cif_Name form,
              cu_Login = cif_Username form, cu_Password = cif_Password form,
              cu_SkipOrgSetup = True\<rparr> s1 = (Inr usr, s2)
    \<and> tolerated a
    \<and> r = response_JSON 200 (DynMap
          [(''message'', DynString ''User created and logged in''), (''id'', DynInt (usr_ID usr))])
    \<and> log = [E_GetTempUserByCode (cif_InviteCode form) (Inr invite),
              E_CreateUser \<lparr>cu_Email = cif_Email form, cu_Name = cif_Name form,
                  cu_Login = cif_Username form, cu_Password = cif_Password form,
                  cu_SkipOrgSetup = True\<rparr> (Inr usr),
              E_Publish \<lparr>ev_Name = NameOrFallback d usr, ev_Email = usr_Email usr\<rparr> None,
              E_AddOrgUser \<lparr>aou_OrgId = dto_OrgId invite, aou_UserId = usr_ID usr, aou_Role = dto_Role invite\<rparr> a,
              E_UpdateTempUserStatus (dto_Code invite) TmpUserCompleted None,
              E_SetUsingOrg \<lparr>suo_OrgId = dto_OrgId invite, suo_UserId = usr_ID usr\<rparr> None,
              E_loginUserWithUser usr None, E_SignUpCompleted_Inc, E_SignUpInvite_Inc]"
proof -
  obtain form where B: "Bind_CompleteInviteForm d (c_Req c) = Inr form"
    using run ok by (cases "Bind_CompleteInviteForm d (c_Req c)") (auto simp: CompleteInvite_def)
  obtain g s1 where G0: "GetTempUserByCode env (cif_InviteCode form) s = (g, s1)"
    by (cases "GetTempUserByCode env (cif_InviteCode form) s")
  obtain invite where g: "g = Inr invite"
    using run ok B G0 by (cases g) (auto simp: CompleteInvite_def logged_sel split: if_splits)
  note G = G0 [unfolded g]
  have pend: "dto_Status invite = TmpUserInvitePending"
    using run ok B G by (auto simp: CompleteInvite_def logged_sel split: if_splits)
  let ?cmd = "\<lparr>cu_Email = cif_Email form, cu_Name = cif_Name form,
              cu_Login = cif_Username form, cu_Password = cif_Password form,
              cu_SkipOrgSetup = True\<rparr>"
  obtain cu s2 where C0: "CreateUser env ?cmd s1 = (cu, s2)" by (cases "CreateUser env ?cmd s1")
  obtain usr where cu: "cu = Inr usr"
    using run ok B G pend C0 by (cases cu) (auto simp: CompleteInvite_def logged_sel split: if_splits)
  note C = C0 [unfolded cu]
  let ?ev = "\<lparr>ev_Name = NameOrFallback d usr, ev_Email = usr_Email usr\<rparr>"
  obtain p s3 where P0: "Publish env ?ev s2 = (p, s3)" by (cases "Publish env ?ev s2")
  have p: "p = None"
    using run ok B G pend C P0 by (cases p) (auto simp: CompleteInvite_def logged_sel)
  note P = P0 [unfolded p]
  let ?A = "\<lparr>aou_OrgId = dto_OrgId invite, aou_UserId = usr_ID usr, aou_Role = dto_Role invite\<rparr>"
  let ?S = "\<lparr>suo_OrgId = dto_OrgId invite, suo_UserId = usr_ID usr\<rparr>"
  obtain a s4 where A: "AddOrgUser env ?A s3 = (a, s4)" by (cases "AddOrgUser env ?A s3")
  obtain u s5 where U: "UpdateTempUserStatus env (dto_Code invite) TmpUserCompleted s4 = (u, s5)"
    by (cases "UpdateTempUserStatus env (dto_Code invite) TmpUserCompleted s4")
  obtain so s6 where O: "SetUsingOrg env ?S s5 = (so, s6)" by (cases "SetUsingOrg env ?S s5")
  obtain lo s7 where L: "loginUserWithUser env usr c s6 = (lo, s7)"
    by (cases "loginUserWithUser env usr c s6")
  note eq = CompleteInvite_eq [OF B G pend C P A U O L]
  have t: "tolerated a" and u: "u = None" and so: "so = None" and lo: "lo = None"
    using run ok eq by (auto simp: Let_def split: if_splits)
  have "r = response_JSON 200 (DynMap
          [(''message'', DynString ''User created and logged in''), (''id'', DynInt (usr_ID usr))])"
    and "log = [E_GetTempUserByCode (cif_InviteCode form) (Inr invite),
              E_CreateUser ?cmd (Inr usr), E_Publish ?ev None, E_AddOrgUser ?A a,
              E_UpdateTempUserStatus (dto_Code invite) TmpUserCompleted None,
              E_SetUsingOrg ?S None,
              E_loginUserWithUser usr None, E_SignUpCompleted_Inc, E_SignUpInvite_Inc]"
    using run eq t u so lo by (simp_all add: Let_def)
  with B G pend C t show ?thesis by blast
qed

lemma CompleteInvite_404:
  assumes B: "Bind_CompleteInviteForm d (c_Req c) = Inr form"
    and st: "status_of (fst (CompleteInvite d env c s)) = 404"
  shows "\<exists>e s1. GetTempUserByCode env (cif_InviteCode form) s = (Inl e, s1) \<and> errors_Is e ErrTempUserNotFound"
  using assms
  by (auto simp: CompleteInvite_def applyUserInvite_def updateTempUserStatus_def Let_def
      split: prod.splits sum.splits option.splits if_splits)

lemma inviteExistingUserToOrg_eq:
  assumes A: "AddOrgUser env \<lparr>aou_OrgId = su_OrgID (c_SignedInUser c), aou_UserId = usr_ID usr,
                 aou_Role = aif_Role inviteDto\<rparr> s = (a, s1)"
  shows "\<exists>r s' rest. inviteExistingUserToOrg d (logged env) c usr inviteDto (s, l) =
           (r, (s', l @ E_AddOrgUser \<lparr>aou_OrgId = su_OrgID (c_SignedInUser c), aou_UserId = usr_ID usr,
                 aou_Role = aif_Role inviteDto\<rparr> a # rest))
         \<and> (\<forall>e \<in> set rest. \<not> is_CreateTempUser e)
         \<and> (\<forall>e. a = Some e \<and> errors_Is e ErrOrgUserAlreadyAdded \<longrightarrow>
               rest = [] \<and>
               r = response_Error 412
                 (''User '' @ aif_LoginOrEmail inviteDto @ '' is already added to organization'')
                 (Some e))
         \<and> (a = None \<longrightarrow> status_of r = 200 \<and> body_field r ''userId'' = Some (DynInt (usr_ID usr))
               \<or> (\<exists>cmd e. rest = [E_SendEmail cmd (Some e)]
                     \<and> r = response_Error 500 ''Failed to send email invited_to_org'' (Some e)))"
proof (cases a)
  case (Some e)
  then show ?thesis using A
    by (simp add: inviteExistingUserToOrg_def logged_sel Let_def)
next
  case None
  let ?m = "\<lparr>se_To = [usr_Email usr], se_Template = ''invited_to_org'',
                   se_Data =
                     [(''Name'', NameOrFallback d usr),
                      (''OrgName'', su_OrgName (c_SignedInUser c)),
                      (''InvitedBy'', StringsFallback3 d (su_Name (c_SignedInUser c))
                         (su_Email (c_SignedInUser c)) (su_Login (c_SignedInUser c)))]\<rparr>"
  obtain m s2 where M: "SendEmailCommandHandler env ?m s1 = (m, s2)"
    by (cases "SendEmailCommandHandler env ?m s1")
  show ?thesis
  proof (cases "aif_SendEmail inviteDto \<and> IsEmail d (usr_Email usr)")
    case True
    then show ?thesis using A None M
      by (cases m) (simp_all add: inviteExistingUserToOrg_def logged_sel Let_def)
  next
    case False
    then show ?thesis using A None
      by (auto simp add: inviteExistingUserToOrg_def logged_sel Let_def)
  qed
qed

text \<open>
  On the store modelled from the spec, a completed sign-up leaves the invite completed:
  the same request sent again is answered with 412.
\<close>

lemma find_map_code:
  assumes "find (\<lambda>i. dto_Code i = code) xs = Some i"
  shows "find (\<lambda>i. dto_Code i = code)
           (map (\<lambda>j. if dto_Code j = code then j\<lparr>dto_Status := st\<rparr> else j) xs) =
         Some (i\<lparr>dto_Status := st\<rparr>)"
  using assms by (induction xs) (auto split: if_splits)

lemma find_code:
  assumes "find (\<lambda>i. dto_Code i = code) xs = Some i"
  shows "dto_Code i = code"
  using assms by (induction xs) (auto split: if_splits)

lemma store_CompleteInvite_twice:
  assumes run: "CompleteInvite d (logged store) c (w, []) = (r, (w', log))"
    and ok: "status_of r = 200"
  shows "CompleteInvite d store c w' =
           (response_Error 412
              (''Invite cannot be used in status '' @ status_String d TmpUserCompleted) None, w')"
proof -
  from CompleteInvite_200 [OF run ok] obtain form invite usr a s1 s2 where
    B: "Bind_CompleteInviteForm d (c_Req c) = Inr form"
    and G: "GetTempUserByCode store (cif_InviteCode form) w = (Inr invite, s1)"
    and pend: "dto_Status invite = TmpUserInvitePending"
    and C: "CreateUser store \<lparr>cu_Email = cif_Email form, cu_Name = cif_Name form,
              cu_Login = cif_Username form, cu_Password = cif_Password form,
              cu_SkipOrgSetup = True\<rparr> s1 = (Inr usr, s2)"
    and log: "E_UpdateTempUserStatus (dto_Code invite) TmpUserCompleted None \<in> set log"
    by auto
  have f: "find (\<lambda>i. dto_Code i = cif_InviteCode form) (w_invites w) = Some invite" and s1: "s1 = w"
    using G by (auto simp: store_def store_GetTempUserByCode_def split: option.splits)
  have code: "dto_Code invite = cif_InviteCode form" using f by (rule find_code)
  have inv2: "w_invites s2 = w_invites w"
    using C s1 by (auto simp: store_def store_CreateUser_def Let_def split: if_splits)
  let ?A = "\<lparr>aou_OrgId = dto_OrgId invite, aou_UserId = usr_ID usr, aou_Role = dto_Role invite\<rparr>"
  let ?S = "\<lparr>suo_OrgId = dto_OrgId invite, suo_UserId = usr_ID usr\<rparr>"
  obtain a' s4 where A: "AddOrgUser store ?A s2 = (a', s4)" by (cases "AddOrgUser store ?A s2")
  have inv4: "w_invites s4 = w_invites w"
    using A inv2 by (auto simp: store_def store_AddOrgUser_def split: if_splits)
  obtain u s5 where U: "UpdateTempUserStatus store (dto_Code invite) TmpUserCompleted s4 = (u, s5)"
    by (cases "UpdateTempUserStatus store (dto_Code invite) TmpUserCompleted s4")
  have u: "u = None" and inv5: "w_invites s5 =
       map (\<lambda>j. if dto_Code j = cif_InviteCode form then j\<lparr>dto_Status := TmpUserCompleted\<rparr> else j)
         (w_invites w)"
    using U inv4 f pend code by (auto simp: store_def store_UpdateTempUserStatus_def)
  obtain so s6 where O: "SetUsingOrg store ?S s5 = (so, s6)" by (cases "SetUsingOrg store ?S s5")
  obtain lo s7 where L: "loginUserWithUser store usr c s6 = (lo, s7)"
    by (cases "loginUserWithUser store usr c s6")
  have so: "so = None" and lo: "lo = None" and inv7: "w_invites s7 = w_invites s5"
    using O L by (auto simp: store_def store_SetUsingOrg_def)
  have P: "Publish store \<lparr>ev_Name = NameOrFallback d usr, ev_Email = usr_Email usr\<rparr> s2 = (None, s2)"
    by (simp add: store_def)
  have t: "tolerated a'"
    using A by (auto simp: store_def store_AddOrgUser_def tolerated_def split: if_splits)
  from CompleteInvite_eq [OF B G pend C P A U O L] run t u so lo
  have w': "w' = MApiUserSignUpInvite_Inc store (MApiUserSignUpCompleted_Inc store s7)"
    by (simp add: Let_def)
  have inv': "w_invites w' =
       map (\<lambda>j. if dto_Code j = cif_InviteCode form then j\<lparr>dto_Status := TmpUserCompleted\<rparr> else j)
         (w_invites w)"
    using w' inv7 inv5 by (simp add: store_def)
  have G2: "GetTempUserByCode store (cif_InviteCode form) w' =
              (Inr (invite\<lparr>dto_Status := TmpUserCompleted\<rparr>), w')"
    using find_map_code [OF f, of TmpUserCompleted] inv'
    by (simp add: store_def store_GetTempUserByCode_def)
  show ?thesis using B G2
    by (simp add: CompleteInvite_def)
qed

lemma signup_run:
  "CompleteInvite helpers store (signup ''abc'') warming =
     (response_JSON 200 (DynMap
        [(''message'', DynString ''User created and logged in''), (''id'', DynInt 6)]), joined)"
  by (simp add: handlers collaborators examples)

lemma signup_logged_run:
  "CompleteInvite helpers (logged store) (signup ''abc'') (warming, []) =
     (response_JSON 200 (DynMap
        [(''message'', DynString ''User created and logged in''), (''id'', DynInt 6)]),
      (joined,
       [E_GetTempUserByCode ''abc'' (Inr invite_abc),
        E_CreateUser
          \<lparr>cu_Email = ''new@example.org'', cu_Name = ''New'', cu_Login = ''newbie'',
           cu_Password = ''secret'', cu_SkipOrgSetup = True\<rparr> (Inr newbie),
        E_Publish \<lparr>ev_Name = ''New'', ev_Email = ''new@example.org''\<rparr> None,
        E_AddOrgUser \<lparr>aou_OrgId = 1, aou_UserId = 6, aou_Role = ''Viewer''\<rparr> None,
        E_UpdateTempUserStatus ''abc'' TmpUserCompleted None,
        E_SetUsingOrg \<lparr>suo_OrgId = 1, suo_UserId = 6\<rparr> None,
        E_loginUserWithUser newbie None,
        E_SignUpCompleted_Inc, E_SignUpInvite_Inc]))"
  by (simp add: handlers logged_sel collaborators examples)

section \<open>The claims\<close>

text \<open>
  C1. \<^verbatim>\<open>GetInviteInfoByCode\<close> answers 404 when the code is not that of a pending invite:
  when the store answers the lookup with its not-found sentinel, and when it answers with
  an invite whose status is not pending. Both answers are the same fixed response
  \<open>response_Error 404 ''Invite not found'' None\<close>, which holds nothing of the invite
  (no email, name or inviter).
\<close>

theorem GetInviteInfoByCode_not_pending:
  "(\<forall>e s1. GetTempUserByCode env (web_Params (c_Req c) '':code'') s = (Inl e, s1)
        \<and> errors_Is e ErrTempUserNotFound \<longrightarrow>
      GetInviteInfoByCode d env c s = (response_Error 404 ''Invite not found'' None, s1))
   \<and> (\<forall>invite s1. GetTempUserByCode env (web_Params (c_Req c) '':code'') s = (Inr invite, s1)
        \<and> dto_Status invite \<noteq> TmpUserInvitePending \<longrightarrow>
      GetInviteInfoByCode d env c s = (response_Error 404 ''Invite not found'' None, s1))"
  by (simp add: GetInviteInfoByCode_def)

text \<open>On the example store: the completed invite \<open>old\<close> and the unknown code \<open>nope\<close>.\<close>

theorem GetInviteInfoByCode_not_pending_witness:
  "GetInviteInfoByCode helpers store (request editor [] ''old'') warming =
     (response_Error 404 ''Invite not found'' None, warming)
   \<and> GetInviteInfoByCode helpers store (request editor [] ''nope'') warming =
     (response_Error 404 ''Invite not found'' None, warming)"
proof -
  have old: "GetTempUserByCode store (web_Params (c_Req (request editor [] ''old'')) '':code'') warming =
               (Inr invite_old, warming)
             \<and> dto_Status invite_old \<noteq> TmpUserInvitePending"
    by (simp add: collaborators examples)
  have nope: "GetTempUserByCode store (web_Params (c_Req (request editor [] ''nope'')) '':code'') warming =
               (Inl ErrTempUserNotFound, warming)
             \<and> errors_Is ErrTempUserNotFound ErrTempUserNotFound"
    by (simp add: collaborators examples)
  from GetInviteInfoByCode_not_pending [THEN conjunct2, rule_format, OF old]
       GetInviteInfoByCode_not_pending [THEN conjunct1, rule_format, OF nope]
  show ?thesis by simp
qed

text \<open>
  C2. When the form binds and the store answers the lookup with an invite that is not
  pending, \<^verbatim>\<open>CompleteInvite\<close> answers 412 with a message naming the invite's status. It
  answers 404 only when the store answers the lookup with its not-found sentinel. A
  call that answered 200 had the store set the looked-up invite to completed (the log
  holds the update, acknowledged), so that when the store then answers the same code
  with the completed invite, the second call answers 412. On the store modelled from the
  spec that is what happens from every state: the same request sent again after a 200
  is answered with 412.
\<close>

theorem CompleteInvite_wrong_state:
  assumes B: "Bind_CompleteInviteForm d (c_Req c) = Inr form"
  shows "(\<forall>invite s1. GetTempUserByCode env (cif_InviteCode form) s = (Inr invite, s1)
            \<and> dto_Status invite \<noteq> TmpUserInvitePending \<longrightarrow>
          CompleteInvite d env c s =
            (response_Error 412
               (''Invite cannot be used in status '' @ status_String d (dto_Status invite)) None, s1))
       \<and> (status_of (fst (CompleteInvite d env c s)) = 404 \<longrightarrow>
            (\<exists>e s1. GetTempUserByCode env (cif_InviteCode form) s = (Inl e, s1)
               \<and> errors_Is e ErrTempUserNotFound))
       \<and> (\<forall>r1 s1 log. CompleteInvite d (logged env) c (s, []) = (r1, (s1, log))
              \<and> status_of r1 = 200 \<longrightarrow>
            (\<exists>invite. E_GetTempUserByCode (cif_InviteCode form) (Inr invite) \<in> set log
               \<and> E_UpdateTempUserStatus (dto_Code invite) TmpUserCompleted None \<in> set log)
            \<and> (\<forall>invite' s2. GetTempUserByCode env (cif_InviteCode form) s1 = (Inr invite', s2)
                  \<and> dto_Status invite' = TmpUserCompleted \<longrightarrow>
                CompleteInvite d env c s1 =
                  (response_Error 412
                     (''Invite cannot be used in status '' @ status_String d TmpUserCompleted) None, s2)))
       \<and> (\<forall>w r1 w1 log. CompleteInvite d (logged store) c (w, []) = (r1, (w1, log))
              \<and> status_of r1 = 200 \<longrightarrow>
            CompleteInvite d store c w1 =
              (response_Error 412
                 (''Invite cannot be used in status '' @ status_String d TmpUserCompleted) None, w1))"
proof (intro conjI allI impI)
  fix invite s1
  assume "GetTempUserByCode env (cif_InviteCode form) s = (Inr invite, s1)
            \<and> dto_Status invite \<noteq> TmpUserInvitePending"
  then show "CompleteInvite d env c s =
            (response_Error 412
               (''Invite cannot be used in status '' @ status_String d (dto_Status invite)) None, s1)"
    using B by (simp add: CompleteInvite_def)
next
  assume "status_of (fst (CompleteInvite d env c s)) = 404"
  with B show "\<exists>e s1. GetTempUserByCode env (cif_InviteCode form) s = (Inl e, s1)
               \<and> errors_Is e ErrTempUserNotFound"
    by (rule CompleteInvite_404)
next
  fix r1 s1 log
  assume run: "CompleteInvite d (logged env) c (s, []) = (r1, (s1, log)) \<and> status_of r1 = 200"
  from CompleteInvite_200 [of d env c s r1 s1 log] run B
  show "\<exists>invite. E_GetTempUserByCode (cif_InviteCode form) (Inr invite) \<in> set log
               \<and> E_UpdateTempUserStatus (dto_Code invite) TmpUserCompleted None \<in> set log"
    by auto
next
  fix r1 s1 log invite' s2
  assume "GetTempUserByCode env (cif_InviteCode form) s1 = (Inr invite', s2)
                  \<and> dto_Status invite' = TmpUserCompleted"
  then show "CompleteInvite d env c s1 =
                  (response_Error 412
                     (''Invite cannot be used in status '' @ status_String d TmpUserCompleted) None, s2)"
    using B by (simp add: CompleteInvite_def)
next
  fix w :: world and r1 w1 log
  assume "CompleteInvite d (logged store) c (w, []) = (r1, (w1, log)) \<and> status_of r1 = 200"
  then show "CompleteInvite d store c w1 =
              (response_Error 412
                 (''Invite cannot be used in status '' @ status_String d TmpUserCompleted) None, w1)"
    using store_CompleteInvite_twice by blast
qed

text \<open>
  On the example store, the same sign-up sent twice for the pending invite \<open>abc\<close>: 200,
  then 412; the completed invite \<open>old\<close> gives 412 and the unknown code \<open>nope\<close> 404.
\<close>

theorem CompleteInvite_wrong_state_witness:
  "CompleteInvite helpers store (signup ''abc'') warming =
     (response_JSON 200 (DynMap
        [(''message'', DynString ''User created and logged in''), (''id'', DynInt 6)]), joined)
   \<and> CompleteInvite helpers store (signup ''abc'') joined =
     (response_Error 412 ''Invite cannot be used in status Completed'' None, joined)
   \<and> CompleteInvite helpers store (signup ''old'') warming =
     (response_Error 412 ''Invite cannot be used in status Completed'' None, warming)
   \<and> CompleteInvite helpers store (signup ''nope'') warming =
     (response_Error 404 ''Invite not found'' None, warming)"
proof -
  let ?form = "\<lambda>code. \<lparr>cif_InviteCode = code, cif_Email = ''new@example.org'', cif_Name = ''New'',
                cif_Username = ''newbie'', cif_Password = ''secret''\<rparr>"
  have B: "Bind_CompleteInviteForm helpers (c_Req (signup ''abc'')) = Inr (?form ''abc'')"
    by (simp add: helpers_def bind_complete_def examples)
  have B': "Bind_CompleteInviteForm helpers (c_Req (signup ''old'')) = Inr (?form ''old'')"
    by (simp add: helpers_def bind_complete_def examples)
  have G: "GetTempUserByCode store (cif_InviteCode (?form ''abc'')) joined =
             (Inr (invite_abc\<lparr>dto_Status := TmpUserCompleted\<rparr>), joined)
           \<and> dto_Status (invite_abc\<lparr>dto_Status := TmpUserCompleted\<rparr>) \<noteq> TmpUserInvitePending"
    by (simp add: collaborators examples)
  have G': "GetTempUserByCode store (cif_InviteCode (?form ''old'')) warming = (Inr invite_old, warming)
           \<and> dto_Status invite_old \<noteq> TmpUserInvitePending"
    by (simp add: collaborators examples)
  note second = CompleteInvite_wrong_state [OF B, THEN conjunct1, rule_format, OF G]
  note old = CompleteInvite_wrong_state [OF B', THEN conjunct1, rule_format, OF G']
  have nope: "CompleteInvite helpers store (signup ''nope'') warming =
     (response_Error 404 ''Invite not found'' None, warming)"
    by (simp add: handlers collaborators examples)
  show ?thesis using signup_run second old nope
    by (simp add: helpers_def status_name_def invite_old_def)
qed

text \<open>
  C3. Once the invite is found pending, the user created and the event published,
  \<^verbatim>\<open>CompleteInvite\<close> calls, in this order, \<^verbatim>\<open>AddOrgUser\<close>, \<^verbatim>\<open>UpdateTempUserStatus\<close>
  (to completed), \<^verbatim>\<open>SetUsingOrg\<close> and \<^verbatim>\<open>loginUserWithUser\<close>, then the two sign-up
  counters. An \<^verbatim>\<open>AddOrgUser\<close> error that is the already-a-member sentinel is tolerated
  and the flow goes on; any other one answers 500 after that single call, with no status
  update issued. An error of a later call answers 500 at once: the log ends with the
  failing call, the state is the one that call left, and nothing undoes the earlier calls.
\<close>

theorem CompleteInvite_apply_order:
  assumes B: "Bind_CompleteInviteForm d (c_Req c) = Inr form"
    and G: "GetTempUserByCode env (cif_InviteCode form) s = (Inr invite, s1)"
    and pend: "dto_Status invite = TmpUserInvitePending"
    and C: "CreateUser env \<lparr>cu_Email = cif_Email form, cu_Name = cif_Name form,
              cu_Login = cif_Username form, cu_Password = cif_Password form,
              cu_SkipOrgSetup = True\<rparr> s1 = (Inr usr, s2)"
    and P: "Publish env \<lparr>ev_Name = NameOrFallback d usr, ev_Email = usr_Email usr\<rparr> s2 = (None, s3)"
    and A: "AddOrgUser env \<lparr>aou_OrgId = dto_OrgId invite, aou_UserId = usr_ID usr, aou_Role = dto_Role invite\<rparr> s3 = (a, s4)"
    and U: "UpdateTempUserStatus env (dto_Code invite) TmpUserCompleted s4 = (u, s5)"
    and O: "SetUsingOrg env \<lparr>suo_OrgId = dto_OrgId invite, suo_UserId = usr_ID usr\<rparr> s5 = (so, s6)"
    and L: "loginUserWithUser env usr c s6 = (lo, s7)"
  shows "CompleteInvite d (logged env) c (s, []) =
    (let pre = [E_GetTempUserByCode (cif_InviteCode form) (Inr invite),
                E_CreateUser \<lparr>cu_Email = cif_Email form, cu_Name = cif_Name form,
                  cu_Login = cif_Username form, cu_Password = cif_Password form,
                  cu_SkipOrgSetup = True\<rparr> (Inr usr),
                E_Publish \<lparr>ev_Name = NameOrFallback d usr, ev_Email = usr_Email usr\<rparr> None];
         add = E_AddOrgUser \<lparr>aou_OrgId = dto_OrgId invite, aou_UserId = usr_ID usr, aou_Role = dto_Role invite\<rparr> a;
         upd = E_UpdateTempUserStatus (dto_Code invite) TmpUserCompleted u;
         act = E_SetUsingOrg \<lparr>suo_OrgId = dto_OrgId invite, suo_UserId = usr_ID usr\<rparr> so;
         login = E_loginUserWithUser usr lo
     in
     if \<not> tolerated a then
       (response_Error 500 ''Error while trying to create org user'' a, (s4, pre @ [add]))
     else if u \<noteq> None then
       (response_Error 500 ''Failed to update invite status'' u, (s5, pre @ [add, upd]))
     else if so \<noteq> None then
       (response_Error 500 ''Failed to set org as active'' so, (s6, pre @ [add, upd, act]))
     else if lo \<noteq> None then
       (response_Error 500 ''failed to accept invite'' lo, (s7, pre @ [add, upd, act, login]))
     else
       (response_JSON 200 (DynMap
          [(''message'', DynString ''User created and logged in''), (''id'', DynInt (usr_ID usr))]),
        (MApiUserSignUpInvite_Inc env (MApiUserSignUpCompleted_Inc env s7),
         pre @ [add, upd, act, login, E_SignUpCompleted_Inc, E_SignUpInvite_Inc])))
    \<and> (\<not> tolerated a \<longrightarrow>
         (\<forall>e \<in> set (snd (snd (CompleteInvite d (logged env) c (s, [])))).
            \<not> is_UpdateTempUserStatus e))"
proof -
  note eq = CompleteInvite_eq [OF B G pend C P A U O L]
  show ?thesis
  proof (intro conjI impI)
    show "CompleteInvite d (logged env) c (s, []) =
    (let pre = [E_GetTempUserByCode (cif_InviteCode form) (Inr invite),
                E_CreateUser \<lparr>cu_Email = cif_Email form, cu_Name = cif_Name form,
                  cu_Login = cif_Username form, cu_Password = cif_Password form,
                  cu_SkipOrgSetup = True\<rparr> (Inr usr),
                E_Publish \<lparr>ev_Name = NameOrFallback d usr, ev_Email = usr_Email usr\<rparr> None];
         add = E_AddOrgUser \<lparr>aou_OrgId = dto_OrgId invite, aou_UserId = usr_ID usr, aou_Role = dto_Role invite\<rparr> a;
         upd = E_UpdateTempUserStatus (dto_Code invite) TmpUserCompleted u;
         act = E_SetUsingOrg \<lparr>suo_OrgId = dto_OrgId invite, suo_UserId = usr_ID usr\<rparr> so;
         login = E_loginUserWithUser usr lo
     in
     if \<not> tolerated a then
       (response_Error 500 ''Error while trying to create org user'' a, (s4, pre @ [add]))
     else if u \<noteq> None then
       (response_Error 500 ''Failed to update invite status'' u, (s5, pre @ [add, upd]))
     else if so \<noteq> None then
       (response_Error 500 ''Failed to set org as active'' so, (s6, pre @ [add, upd, act]))
     else if lo \<noteq> None then
       (response_Error 500 ''failed to accept invite'' lo, (s7, pre @ [add, upd, act, login]))
     else
       (response_JSON 200 (DynMap
          [(''message'', DynString ''User created and logged in''), (''id'', DynInt (usr_ID usr))]),
        (MApiUserSignUpInvite_Inc env (MApiUserSignUpCompleted_Inc env s7),
         pre @ [add, upd, act, login, E_SignUpCompleted_Inc, E_SignUpInvite_Inc])))"
      by (rule eq)
  next
    assume "\<not> tolerated a"
    then show "\<forall>e \<in> set (snd (snd (CompleteInvite d (logged env) c (s, [])))).
            \<not> is_UpdateTempUserStatus e"
      by (simp add: eq Let_def)
  qed
qed

text \<open>
  On the example store, the sign-up for the pending invite \<open>abc\<close>: every call succeeds,
  and the log shows the order.
\<close>

theorem CompleteInvite_apply_order_witness:
  "CompleteInvite helpers (logged store) (signup ''abc'') (warming, []) =
     (response_JSON 200 (DynMap
        [(''message'', DynString ''User created and logged in''), (''id'', DynInt 6)]),
      (joined,
       [E_GetTempUserByCode ''abc'' (Inr invite_abc),
        E_CreateUser
          \<lparr>cu_Email = ''new@example.org'', cu_Name = ''New'', cu_Login = ''newbie'',
           cu_Password = ''secret'', cu_SkipOrgSetup = True\<rparr> (Inr newbie),
        E_Publish \<lparr>ev_Name = ''New'', ev_Email = ''new@example.org''\<rparr> None,
        E_AddOrgUser \<lparr>aou_OrgId = 1, aou_UserId = 6, aou_Role = ''Viewer''\<rparr> None,
        E_UpdateTempUserStatus ''abc'' TmpUserCompleted None,
        E_SetUsingOrg \<lparr>suo_OrgId = 1, suo_UserId = 6\<rparr> None,
        E_loginUserWithUser newbie None,
        E_SignUpCompleted_Inc, E_SignUpInvite_Inc]))"
proof -
  let ?c = "signup ''abc''"
  let ?form = "\<lparr>cif_InviteCode = ''abc'', cif_Email = ''new@example.org'', cif_Name = ''New'',
                cif_Username = ''newbie'', cif_Password = ''secret''\<rparr>"
  let ?cmd = "\<lparr>cu_Email = cif_Email ?form, cu_Name = cif_Name ?form,
              cu_Login = cif_Username ?form, cu_Password = cif_Password ?form,
              cu_SkipOrgSetup = True\<rparr>"
  let ?A = "\<lparr>aou_OrgId = dto_OrgId invite_abc, aou_UserId = usr_ID newbie, aou_Role = dto_Role invite_abc\<rparr>"
  let ?S = "\<lparr>suo_OrgId = dto_OrgId invite_abc, suo_UserId = usr_ID newbie\<rparr>"
  define s2 where "s2 = snd (CreateUser store ?cmd warming)"
  define s4 where "s4 = snd (AddOrgUser store ?A s2)"
  define s5 where "s5 = snd (UpdateTempUserStatus store (dto_Code invite_abc) TmpUserCompleted s4)"
  define s6 where "s6 = snd (SetUsingOrg store ?S s5)"
  define s7 where "s7 = snd (loginUserWithUser store newbie ?c s6)"
  have B: "Bind_CompleteInviteForm helpers (c_Req ?c) = Inr ?form"
    by (simp add: helpers_def bind_complete_def examples)
  have G: "GetTempUserByCode store (cif_InviteCode ?form) warming = (Inr invite_abc, warming)"
    by (simp add: collaborators examples)
  have pend: "dto_Status invite_abc = TmpUserInvitePending"
    by (simp add: invite_abc_def)
  have C: "CreateUser store ?cmd warming = (Inr newbie, s2)"
    by (simp add: s2_def collaborators examples)
  have P: "Publish store \<lparr>ev_Name = NameOrFallback helpers newbie, ev_Email = usr_Email newbie\<rparr> s2 = (None, s2)"
    by (simp add: store_def)
  have A: "AddOrgUser store ?A s2 = (None, s4)"
    by (simp add: s4_def s2_def collaborators examples)
  have U: "UpdateTempUserStatus store (dto_Code invite_abc) TmpUserCompleted s4 = (None, s5)"
    by (simp add: s5_def s4_def s2_def collaborators examples)
  have O: "SetUsingOrg store ?S s5 = (None, s6)"
    by (simp add: s6_def collaborators)
  have L: "loginUserWithUser store newbie ?c s6 = (None, s7)"
    by (simp add: s7_def collaborators)
  have s7: "MApiUserSignUpInvite_Inc store (MApiUserSignUpCompleted_Inc store s7) = joined"
    by (simp add: s7_def s6_def s5_def s4_def s2_def collaborators examples)
  show ?thesis
    using CompleteInvite_apply_order [OF B G pend C P A U O L, THEN conjunct1]
    by (simp add: s7 tolerated_def Let_def helpers_def invite_abc_def newbie_def)
qed

text \<open>
  C4. When the form binds, \<^verbatim>\<open>AddOrgInvite\<close> answers 400 for a role that is not valid,
  and 403 for a valid role that the caller's org role does not include when the caller
  is not a Grafana admin. In both cases it has called no collaborator: the log is empty
  and the state untouched, so no invite record is created and no membership added.
\<close>

theorem AddOrgInvite_role_gate:
  assumes "Bind_AddInviteForm d (c_Req c) = Inr inviteDto"
  shows "(\<not> IsValid d (aif_Role inviteDto) \<longrightarrow>
            AddOrgInvite d (logged env) c (s, []) =
              (response_Error 400 ''Invalid role specified'' None, (s, [])))
         \<and> (IsValid d (aif_Role inviteDto)
              \<and> \<not> Includes d (su_OrgRole (c_SignedInUser c)) (aif_Role inviteDto)
              \<and> \<not> su_IsGrafanaAdmin (c_SignedInUser c) \<longrightarrow>
            AddOrgInvite d (logged env) c (s, []) =
              (response_Error 403 ''Cannot assign a role higher than user's role'' None,
               (s, [])))"
  using assms by (simp add: AddOrgInvite_def)

text \<open>
  On the example store: an editor asks for the role Admin (403), then for the role
  Boss, which does not exist (400).
\<close>

theorem AddOrgInvite_role_gate_witness:
  "AddOrgInvite helpers (logged store) (invite_request editor ''x@example.org'' ''Admin'') (warming, []) =
     (response_Error 403 ''Cannot assign a role higher than user's role'' None, (warming, []))
   \<and> AddOrgInvite helpers (logged store) (invite_request editor ''x@example.org'' ''Boss'') (warming, []) =
     (response_Error 400 ''Invalid role specified'' None, (warming, []))"
proof -
  have B1: "Bind_AddInviteForm helpers (c_Req (invite_request editor ''x@example.org'' ''Admin'')) =
             Inr (invite_form ''x@example.org'' ''Admin'')"
    by (simp add: helpers_def bind_add_def examples)
  have B2: "Bind_AddInviteForm helpers (c_Req (invite_request editor ''x@example.org'' ''Boss'')) =
             Inr (invite_form ''x@example.org'' ''Boss'')"
    by (simp add: helpers_def bind_add_def examples)
  from AddOrgInvite_role_gate [OF B1, of store warming] AddOrgInvite_role_gate [OF B2, of store warming]
  show ?thesis
    by (simp add: helpers_def role_rank_def examples)
qed

text \<open>
  C5. When the form binds, the role passes the gate and the user store finds a user for
  the given login or email: if access control approves, \<^verbatim>\<open>AddOrgInvite\<close> next calls
  \<^verbatim>\<open>AddOrgUser\<close> for that user, the caller's org and the requested role, and never calls
  \<^verbatim>\<open>CreateTempUser\<close>; an already-added sentinel from that call is answered with 412.
  If access control denies, the answer is 403 and the log holds the lookup and the
  evaluation only: neither an invite nor a membership is created.
\<close>

theorem AddOrgInvite_existing_user:
  assumes B: "Bind_AddInviteForm d (c_Req c) = Inr inviteDto"
    and valid: "IsValid d (aif_Role inviteDto)"
    and allowed: "Includes d (su_OrgRole (c_SignedInUser c)) (aif_Role inviteDto)
                   \<or> su_IsGrafanaAdmin (c_SignedInUser c)"
    and F: "GetByLogin env (aif_LoginOrEmail inviteDto) s = (Inr usr, s1)"
    and E: "Evaluate env (c_SignedInUser c)
              (EvalPermission ActionOrgUsersAdd [''users'', ''id'', Itoa d (usr_ID usr)]) s1 =
            (Inr hasAccess, s2)"
    and A: "AddOrgUser env \<lparr>aou_OrgId = su_OrgID (c_SignedInUser c), aou_UserId = usr_ID usr,
                 aou_Role = aif_Role inviteDto\<rparr> s2 = (a, s3)"
    and run: "AddOrgInvite d (logged env) c (s, []) = (r, (s', log))"
  shows "(hasAccess \<longrightarrow>
            take 3 log =
              [E_GetByLogin (aif_LoginOrEmail inviteDto) (Inr usr),
               E_Evaluate (c_SignedInUser c)
                 (EvalPermission ActionOrgUsersAdd [''users'', ''id'', Itoa d (usr_ID usr)]) (Inr True),
               E_AddOrgUser \<lparr>aou_OrgId = su_OrgID (c_SignedInUser c), aou_UserId = usr_ID usr,
                 aou_Role = aif_Role inviteDto\<rparr> a]
          \<and> (\<forall>e \<in> set log. \<not> is_CreateTempUser e)
          \<and> (\<forall>e. a = Some e \<and> errors_Is e ErrOrgUserAlreadyAdded \<longrightarrow>
                r = response_Error 412
                  (''User '' @ aif_LoginOrEmail inviteDto @ '' is already added to organization'')
                  (Some e)))
       \<and> (\<not> hasAccess \<longrightarrow>
            r = response_Error 403
                  ''Permission denied: not permitted to add an existing user to this organisation''
                  None
          \<and> s' = s2
          \<and> log =
              [E_GetByLogin (aif_LoginOrEmail inviteDto) (Inr usr),
               E_Evaluate (c_SignedInUser c)
                 (EvalPermission ActionOrgUsersAdd [''users'', ''id'', Itoa d (usr_ID usr)]) (Inr False)])"
proof (cases hasAccess)
  case False
  from False show ?thesis using B valid allowed F E run
    by (cases "Includes d (su_OrgRole (c_SignedInUser c)) (aif_Role inviteDto)")
       (simp_all add: AddOrgInvite_def logged_sel)
next
  case True
  let ?pre = "[E_GetByLogin (aif_LoginOrEmail inviteDto) (Inr usr),
               E_Evaluate (c_SignedInUser c)
                 (EvalPermission ActionOrgUsersAdd [''users'', ''id'', Itoa d (usr_ID usr)]) (Inr True)]"
  from inviteExistingUserToOrg_eq [OF A, of d ?pre]
  obtain r0 s0 rest where
    I: "inviteExistingUserToOrg d (logged env) c usr inviteDto (s2, ?pre) =
           (r0, (s0, ?pre @ E_AddOrgUser \<lparr>aou_OrgId = su_OrgID (c_SignedInUser c), aou_UserId = usr_ID usr,
                 aou_Role = aif_Role inviteDto\<rparr> a # rest))"
    and nc: "\<forall>e \<in> set rest. \<not> is_CreateTempUser e"
    and dup: "\<forall>e. a = Some e \<and> errors_Is e ErrOrgUserAlreadyAdded \<longrightarrow>
               rest = [] \<and>
               r0 = response_Error 412
                 (''User '' @ aif_LoginOrEmail inviteDto @ '' is already added to organization'')
                 (Some e)"
    by blast
  have "AddOrgInvite d (logged env) c (s, []) =
          inviteExistingUserToOrg d (logged env) c usr inviteDto (s2, ?pre)"
    using B valid allowed F E True
    by (cases "Includes d (su_OrgRole (c_SignedInUser c)) (aif_Role inviteDto)")
       (simp_all add: AddOrgInvite_def logged_sel)
  with run I have r: "r = r0" and log: "log = ?pre @ E_AddOrgUser \<lparr>aou_OrgId = su_OrgID (c_SignedInUser c), aou_UserId = usr_ID usr,
                 aou_Role = aif_Role inviteDto\<rparr> a # rest"
    by simp_all
  show ?thesis using True r log nc dup by simp
qed

text \<open>
  On the example store: an org admin invites carol, who has an account and is not yet a
  member (membership added, 200); invites bob, who is a member already (412); and an
  editor, whom access control denies, invites carol (403).
\<close>

theorem AddOrgInvite_existing_user_witness:
  "AddOrgInvite helpers (logged store) (invite_request org_admin ''carol'' ''Viewer'') (warming, []) =
     (response_JSON 200 (DynMap
        [(''message'', DynString ''Existing Grafana user carol added to org Main Org.''),
         (''userId'', DynInt 5)]),
      (warming\<lparr>w_members := w_members warming @ [\<lparr>aou_OrgId = 1, aou_UserId = 5, aou_Role = ''Viewer''\<rparr>]\<rparr>,
       [E_GetByLogin ''carol'' (Inr carol),
        E_Evaluate org_admin (EvalPermission ActionOrgUsersAdd [''users'', ''id'', ''5'']) (Inr True),
        E_AddOrgUser \<lparr>aou_OrgId = 1, aou_UserId = 5, aou_Role = ''Viewer''\<rparr> None]))
   \<and> AddOrgInvite helpers (logged store) (invite_request org_admin ''bob'' ''Viewer'') (warming, []) =
     (response_Error 412 ''User bob is already added to organization'' (Some ErrOrgUserAlreadyAdded),
      (warming,
       [E_GetByLogin ''bob'' (Inr bob),
        E_Evaluate org_admin (EvalPermission ActionOrgUsersAdd [''users'', ''id'', ''2'']) (Inr True),
        E_AddOrgUser \<lparr>aou_OrgId = 1, aou_UserId = 2, aou_Role = ''Viewer''\<rparr>
          (Some ErrOrgUserAlreadyAdded)]))
   \<and> AddOrgInvite helpers (logged store) (invite_request editor ''carol'' ''Viewer'') (warming, []) =
     (response_Error 403
        ''Permission denied: not permitted to add an existing user to this organisation'' None,
      (warming,
       [E_GetByLogin ''carol'' (Inr carol),
        E_Evaluate editor (EvalPermission ActionOrgUsersAdd [''users'', ''id'', ''5'']) (Inr False)]))"
proof -
  let ?run = "\<lambda>su who. AddOrgInvite helpers (logged store) (invite_request su who ''Viewer'') (warming, [])"
  have B: "Bind_AddInviteForm helpers (c_Req (invite_request su who ''Viewer'')) =
             Inr (invite_form who ''Viewer'')" if "who = ''carol'' \<or> who = ''bob''" for su who
    using that by (auto simp: helpers_def bind_add_def examples)
  have valid: "IsValid helpers (aif_Role (invite_form who ''Viewer''))" for who
    by (simp add: helpers_def invite_form_def)
  have allowed: "Includes helpers (su_OrgRole (c_SignedInUser (invite_request su who ''Viewer'')))
                   (aif_Role (invite_form who ''Viewer''))
                 \<or> su_IsGrafanaAdmin (c_SignedInUser (invite_request su who ''Viewer''))"
    if "su = org_admin \<or> su = editor" for su who
    using that by (auto simp: helpers_def role_rank_def examples)
  have F: "GetByLogin store (aif_LoginOrEmail (invite_form ''carol'' ''Viewer'')) warming = (Inr carol, warming)"
    by (simp add: collaborators examples)
  have F': "GetByLogin store (aif_LoginOrEmail (invite_form ''bob'' ''Viewer'')) warming = (Inr bob, warming)"
    by (simp add: collaborators examples)
  have E: "Evaluate store (c_SignedInUser (invite_request su who ''Viewer''))
             (EvalPermission ActionOrgUsersAdd [''users'', ''id'', Itoa helpers (usr_ID u)]) warming =
           (Inr (su = org_admin), warming)" if "su = org_admin \<or> su = editor" for su who u
    using that by (auto simp: collaborators examples)
  have A: "AddOrgUser store
             \<lparr>aou_OrgId = su_OrgID (c_SignedInUser (invite_request su ''carol'' ''Viewer'')),
              aou_UserId = usr_ID carol, aou_Role = aif_Role (invite_form ''carol'' ''Viewer'')\<rparr> warming =
           (None, warming\<lparr>w_members := w_members warming @ [\<lparr>aou_OrgId = 1, aou_UserId = 5, aou_Role = ''Viewer''\<rparr>]\<rparr>)"
    if "su = org_admin \<or> su = editor" for su
    using that by (auto simp: collaborators examples)
  have A': "AddOrgUser store
             \<lparr>aou_OrgId = su_OrgID (c_SignedInUser (invite_request org_admin ''bob'' ''Viewer'')),
              aou_UserId = usr_ID bob, aou_Role = aif_Role (invite_form ''bob'' ''Viewer'')\<rparr> warming =
           (Some ErrOrgUserAlreadyAdded, warming)"
    by (simp add: collaborators examples)
  have r1: "?run org_admin ''carol'' = (fst (?run org_admin ''carol''), (fst (snd (?run org_admin ''carol'')), snd (snd (?run org_admin ''carol''))))"
    by simp
  have r2: "?run org_admin ''bob'' = (fst (?run org_admin ''bob''), (fst (snd (?run org_admin ''bob'')), snd (snd (?run org_admin ''bob''))))"
    by simp
  have r3: "?run editor ''carol'' = (fst (?run editor ''carol''), (fst (snd (?run editor ''carol'')), snd (snd (?run editor ''carol''))))"
    by simp
  note t1 = AddOrgInvite_existing_user [OF B valid allowed F E A r1, simplified]
  note t2 = AddOrgInvite_existing_user [OF B valid allowed F' E A' r2, simplified]
  note t3 = AddOrgInvite_existing_user [OF B valid allowed F E A r3, simplified]
  have e1: "?run org_admin ''carol'' = (response_JSON 200 (DynMap
        [(''message'', DynString ''Existing Grafana user carol added to org Main Org.''),
         (''userId'', DynInt 5)]),
      (warming\<lparr>w_members := w_members warming @ [\<lparr>aou_OrgId = 1, aou_UserId = 5, aou_Role = ''Viewer''\<rparr>]\<rparr>,
       [E_GetByLogin ''carol'' (Inr carol),
        E_Evaluate org_admin (EvalPermission ActionOrgUsersAdd [''users'', ''id'', ''5'']) (Inr True),
        E_AddOrgUser \<lparr>aou_OrgId = 1, aou_UserId = 5, aou_Role = ''Viewer''\<rparr> None]))"
    by (simp add: handlers logged_sel collaborators examples)
  have e2: "?run org_admin ''bob'' = (response_Error 412 ''User bob is already added to organization'' (Some ErrOrgUserAlreadyAdded),
      (warming,
       [E_GetByLogin ''bob'' (Inr bob),
        E_Evaluate org_admin (EvalPermission ActionOrgUsersAdd [''users'', ''id'', ''2'']) (Inr True),
        E_AddOrgUser \<lparr>aou_OrgId = 1, aou_UserId = 2, aou_Role = ''Viewer''\<rparr>
          (Some ErrOrgUserAlreadyAdded)]))"
    by (simp add: handlers logged_sel collaborators examples)
  have e3: "?run editor ''carol'' = (response_Error 403
        ''Permission denied: not permitted to add an existing user to this organisation'' None,
      (warming,
       [E_GetByLogin ''carol'' (Inr carol),
        E_Evaluate editor (EvalPermission ActionOrgUsersAdd [''users'', ''id'', ''5'']) (Inr False)]))"
    by (simp add: handlers logged_sel collaborators examples)
  from t1 t2 t3 e1 e2 e3 show ?thesis by simp
qed

text \<open>
  C6. When \<^verbatim>\<open>IsReady\<close> reports not ready, \<^verbatim>\<open>doQuery\<close> calls the readiness check and
  then increments the not-served counter once, labelled with the reason of the readiness
  response, and calls nothing else: the body is never read, and the outcome is the same
  for every request body. The answer is 200 with the bytes the SDK serialises the empty
  frame named Loading to.
\<close>

theorem doQuery_not_ready:
  assumes "IsReady env (su_OrgID (c_SignedInUser c)) s = (rd, s1)"
    and "\<not> rd_IsReady rd"
  shows "snd (doQuery d (logged env) c (s, [])) =
           (NotServedCounter_Inc env (rd_Reason rd) s1,
            [E_IsReady (su_OrgID (c_SignedInUser c)) rd, E_NotServedCounter_Inc (rd_Reason rd)])
         \<and> (\<forall>bytes. MarshalJSON d \<lparr>frame_Name = ''Loading'', frame_Fields = []\<rparr> = Inr bytes \<longrightarrow>
              fst (doQuery d (logged env) c (s, [])) = response_JSON 200 (Bytes bytes))
         \<and> (\<forall>b. doQuery d (logged env) (c\<lparr>c_Req := (c_Req c)\<lparr>req_Body := b\<rparr>\<rparr>) (s, []) =
                  doQuery d (logged env) c (s, []))"
  using assms by (auto simp: doQuery_def logged_sel Let_def split: sum.splits)

text \<open>On the example store while it warms up, with a body that is not JSON.\<close>

theorem doQuery_not_ready_witness:
  "doQuery helpers (logged store) (request editor ''{not json'' []) (warming, []) =
     (response_JSON 200 (Bytes ''{name:Loading}''),
      (warming\<lparr>w_notserved := [''initial-indexing-ongoing'']\<rparr>,
       [E_IsReady 1 \<lparr>rd_IsReady = False, rd_Reason = ''initial-indexing-ongoing''\<rparr>,
        E_NotServedCounter_Inc ''initial-indexing-ongoing'']))"
proof -
  let ?c = "request editor ''{not json'' []"
  let ?rd = "\<lparr>rd_IsReady = False, rd_Reason = ''initial-indexing-ongoing''\<rparr>"
  have R: "IsReady store (su_OrgID (c_SignedInUser ?c)) warming = (?rd, warming)"
    by (simp add: store_def warming_def)
  have N: "\<not> rd_IsReady ?rd" by simp
  have M: "MarshalJSON helpers \<lparr>frame_Name = ''Loading'', frame_Fields = []\<rparr> = Inr ''{name:Loading}''"
    by (simp add: helpers_def)
  note T = doQuery_not_ready [OF R N, of helpers]
  from T [THEN conjunct1] T [THEN conjunct2, THEN conjunct1, rule_format, OF M]
  show ?thesis
    by (simp add: prod_eq_iff store_def examples)
qed



text \<open>
  C8. \<^verbatim>\<open>RevokeInvite\<close> makes one call, \<^verbatim>\<open>UpdateTempUserStatus\<close> with the code and the
  status revoked, and answers with the success message, or with 500 and the fixed message
  of a failed update when that call returns an error: it never answers 404, and has no
  other error response. On the store modelled from the spec, which refuses to update an
  invite in a terminal state, revoking a completed (or revoked) invite answers that 500
  and leaves the store, and so the invite's status, as it was.
\<close>

theorem RevokeInvite_terminal:
  "(\<exists>a s1. UpdateTempUserStatus env (web_Params (c_Req c) '':code'') TmpUserRevoked s = (a, s1)
       \<and> RevokeInvite (logged env) c (s, []) =
           ((case a of None \<Rightarrow> response_Success ''Invite revoked''
             | Some e \<Rightarrow> response_Error 500 ''Failed to update invite status'' (Some e)),
            (s1, [E_UpdateTempUserStatus (web_Params (c_Req c) '':code'') TmpUserRevoked a])))
   \<and> status_of (fst (RevokeInvite env c s)) \<noteq> 404
   \<and> (\<forall>w i. find (\<lambda>i. dto_Code i = web_Params (c_Req c) '':code'') (w_invites w) = Some i
          \<and> dto_Status i \<noteq> TmpUserInvitePending \<longrightarrow>
        (\<exists>e. RevokeInvite store c w =
           (response_Error 500 ''Failed to update invite status'' (Some e), w)))"
proof (intro conjI allI impI)
  obtain a s1 where U: "UpdateTempUserStatus env (web_Params (c_Req c) '':code'') TmpUserRevoked s = (a, s1)"
    by (cases "UpdateTempUserStatus env (web_Params (c_Req c) '':code'') TmpUserRevoked s")
  have "RevokeInvite (logged env) c (s, []) =
           ((case a of None \<Rightarrow> response_Success ''Invite revoked''
             | Some e \<Rightarrow> response_Error 500 ''Failed to update invite status'' (Some e)),
            (s1, [E_UpdateTempUserStatus (web_Params (c_Req c) '':code'') TmpUserRevoked a]))"
    by (cases a) (simp_all add: RevokeInvite_def updateTempUserStatus_logged [OF U])
  with U show "\<exists>a s1. UpdateTempUserStatus env (web_Params (c_Req c) '':code'') TmpUserRevoked s = (a, s1)
       \<and> RevokeInvite (logged env) c (s, []) =
           ((case a of None \<Rightarrow> response_Success ''Invite revoked''
             | Some e \<Rightarrow> response_Error 500 ''Failed to update invite status'' (Some e)),
            (s1, [E_UpdateTempUserStatus (web_Params (c_Req c) '':code'') TmpUserRevoked a]))"
    by blast
next
  show "status_of (fst (RevokeInvite env c s)) \<noteq> 404"
    by (auto simp: RevokeInvite_def updateTempUserStatus_def split: prod.splits option.splits)
next
  fix w :: world and i
  assume "find (\<lambda>i. dto_Code i = web_Params (c_Req c) '':code'') (w_invites w) = Some i
          \<and> dto_Status i \<noteq> TmpUserInvitePending"
  then show "\<exists>e. RevokeInvite store c w =
           (response_Error 500 ''Failed to update invite status'' (Some e), w)"
    by (simp add: RevokeInvite_def updateTempUserStatus_def store_def store_UpdateTempUserStatus_def)
qed

text \<open>
  On the example store: revoking the completed invite \<open>old\<close>, and revoking the pending
  invite \<open>abc\<close>.
\<close>

theorem RevokeInvite_terminal_witness:
  "RevokeInvite store (request org_admin [] ''old'') warming =
     (response_Error 500 ''Failed to update invite status'' (Some (ErrOther ''terminal state'')), warming)
   \<and> RevokeInvite (logged store) (request org_admin [] ''abc'') (warming, []) =
     (response_Success ''Invite revoked'',
      (warming\<lparr>w_invites := [invite_abc\<lparr>dto_Status := TmpUserRevoked\<rparr>, invite_old]\<rparr>,
       [E_UpdateTempUserStatus ''abc'' TmpUserRevoked None]))"
proof -
  let ?old = "request org_admin [] ''old''"
  let ?abc = "request org_admin [] ''abc''"
  have f: "find (\<lambda>i. dto_Code i = web_Params (c_Req ?old) '':code'') (w_invites warming) = Some invite_old
           \<and> dto_Status invite_old \<noteq> TmpUserInvitePending"
    by (simp add: web_Params_def examples)
  from RevokeInvite_terminal [of store ?old warming, THEN conjunct2, THEN conjunct2, rule_format, OF f]
  obtain e where old: "RevokeInvite store ?old warming =
      (response_Error 500 ''Failed to update invite status'' (Some e), warming)" ..
  have e: "e = ErrOther ''terminal state''"
    using old by (simp add: handlers collaborators examples)
  from RevokeInvite_terminal [of store ?abc warming, THEN conjunct1]
  have abc: "RevokeInvite (logged store) ?abc (warming, []) =
     (response_Success ''Invite revoked'',
      (warming\<lparr>w_invites := [invite_abc\<lparr>dto_Status := TmpUserRevoked\<rparr>, invite_old]\<rparr>,
       [E_UpdateTempUserStatus ''abc'' TmpUserRevoked None]))"
    by (simp add: collaborators examples)
  from old e abc show ?thesis by simp
qed

text \<open>
  C9, as amended. A \<^verbatim>\<open>CompleteInvite\<close> that answers 200 answers with an object of two
  fields: \<open>message\<close>, and \<open>id\<close> carrying the id of the user that \<^verbatim>\<open>CreateUser\<close>
  returned. The object has no field \<open>userId\<close>.
\<close>

theorem CompleteInvite_body:
  assumes run: "CompleteInvite d (logged env) c (s, []) = (r, (s', log))"
    and ok: "status_of r = 200"
  shows "\<exists>cmd usr. E_CreateUser cmd (Inr usr) \<in> set log
           \<and> r = response_JSON 200 (DynMap
                 [(''message'', DynString ''User created and logged in''),
                  (''id'', DynInt (usr_ID usr))])
           \<and> body_field r ''message'' = Some (DynString ''User created and logged in'')
           \<and> body_field r ''id'' = Some (DynInt (usr_ID usr))
           \<and> body_field r ''userId'' = None"
  using CompleteInvite_200 [OF run ok] by auto

text \<open>On the example store, the sign-up for the pending invite \<open>abc\<close>.\<close>

theorem CompleteInvite_body_witness:
  "status_of (fst (CompleteInvite helpers (logged store) (signup ''abc'') (warming, []))) = 200
   \<and> body_field (fst (CompleteInvite helpers (logged store) (signup ''abc'') (warming, []))) ''id''
       = Some (DynInt 6)
   \<and> body_field (fst (CompleteInvite helpers (logged store) (signup ''abc'') (warming, []))) ''userId''
       = None"
proof -
  note run = signup_logged_run
  have ok: "status_of (response_JSON 200 (DynMap
        [(''message'', DynString ''User created and logged in''), (''id'', DynInt 6)])) = 200"
    by simp
  from CompleteInvite_body [OF run ok] show ?thesis
    by (auto simp: run)
qed

text \<open>
  C9 as stated fails: the successful sign-up on the example store answers 200 with a
  body that has no \<open>userId\<close> field; the new user's id is under \<open>id\<close>.
\<close>

theorem CompleteInvite_userId_counterexample:
  "status_of (fst (CompleteInvite helpers store (signup ''abc'') warming)) = 200
   \<and> body_field (fst (CompleteInvite helpers store (signup ''abc'') warming)) ''userId'' = None
   \<and> body_field (fst (CompleteInvite helpers store (signup ''abc'') warming)) ''id'' = Some (DynInt 6)"
  by (simp add: signup_run)

text \<open>
  C10. In every \<^verbatim>\<open>GetInviteInfoByCode\<close> response that carries an invite info, the
  username equals the email: both are the email of the pending invite the store returned.
\<close>

theorem GetInviteInfoByCode_username:
  assumes "GetInviteInfoByCode d env c s = (response_JSON st (InviteInfoBody info), s')"
  shows "ii_Username info = ii_Email info
         \<and> (\<exists>invite. GetTempUserByCode env (web_Params (c_Req c) '':code'') s = (Inr invite, s')
               \<and> dto_Status invite = TmpUserInvitePending
               \<and> ii_Email info = dto_Email invite \<and> ii_Username info = dto_Email invite)"
  using assms
  by (auto simp: GetInviteInfoByCode_def split: prod.splits sum.splits if_splits)

text \<open>On the example store, the pending invite \<open>abc\<close>.\<close>

theorem GetInviteInfoByCode_username_witness:
  "GetInviteInfoByCode helpers store (request editor [] ''abc'') warming =
     (response_JSON 200 (InviteInfoBody
        \<lparr>ii_Email = ''new@example.org'', ii_Name = ''New'', ii_Username = ''new@example.org'',
         ii_InvitedBy = ''Ann''\<rparr>), warming)
   \<and> ii_Username \<lparr>ii_Email = ''new@example.org'', ii_Name = ''New'',
        ii_Username = ''new@example.org'', ii_InvitedBy = ''Ann''\<rparr>
     = ii_Email \<lparr>ii_Email = ''new@example.org'', ii_Name = ''New'',
        ii_Username = ''new@example.org'', ii_InvitedBy = ''Ann''\<rparr>"
proof -
  have run: "GetInviteInfoByCode helpers store (request editor [] ''abc'') warming =
     (response_JSON 200 (InviteInfoBody
        \<lparr>ii_Email = ''new@example.org'', ii_Name = ''New'', ii_Username = ''new@example.org'',
         ii_InvitedBy = ''Ann''\<rparr>), warming)"
    by (simp add: handlers collaborators examples)
  from GetInviteInfoByCode_username [OF run] run show ?thesis by blast
qed

end
